theory Spec2Isabelle
  imports Complex_Main "HOL-Library.Log_Nat"
begin

section \<open>Data model\<close>

text \<open>
  Modelled from the spec: the tables of the application. The module \<^verbatim>\<open>models.py\<close> that
  declares them is not among the sources; the records below have the columns of the
  specification's data model that the service and the routes read or write. A column
  that may be missing is an \<open>option\<close>, \<open>None\<close> being Python's \<^verbatim>\<open>None\<close>. A numeric
  column holds a float, modelled by the real number that the float denotes; the
  arithmetic on floats is the subject of the section on floating-point arithmetic. A
  table is the list of its rows in the order in which a query returns them, and a row
  that is added comes last.
\<close>

record student =
  s_roll_no :: string
  s_name :: string
  s_division :: string
  optional_subject :: "string option"
  optional_subject_2 :: "string option"

record subject =
  subject_id :: nat
  subject_code :: string

record allocation =
  a_teacher_id :: nat
  a_subject_id :: nat
  a_division :: string

record mark =
  mark_id :: nat
  m_roll_no :: string
  m_division :: string
  m_subject_id :: nat
  unit1 :: "real option"
  unit2 :: "real option"
  term_mark :: "real option"
  annual :: "real option"
  tot :: "real option"
  sub_avg :: "real option"
  grace :: "real option"
  entered_by :: nat

record result =
  r_roll_no :: string
  r_name :: string
  r_division :: string
  eng_avg :: "real option"
  eng_grace :: "real option"
  eco_avg :: "real option"
  eco_grace :: "real option"
  bk_avg :: "real option"
  bk_grace :: "real option"
  oc_avg :: "real option"
  oc_grace :: "real option"
  hindi_avg :: "real option"
  hindi_grace :: "real option"
  it_avg :: "real option"
  it_grace :: "real option"
  maths_avg :: "real option"
  maths_grace :: "real option"
  sp_avg :: "real option"
  sp_grace :: "real option"
  total_grace :: "real option"
  percentage :: "real option"
  evs_grade :: "string option"
  pe_grade :: "string option"

record db =
  students :: "student list"
  subjects :: "subject list"
  allocations :: "allocation list"
  marks :: "mark list"
  results :: "result list"

section \<open>Floating-point arithmetic\<close>

text \<open>
  The numbers of the application are Python floats. A number is modelled by the real it
  denotes, and the operations of Python on floats that the code uses are the fields of a
  record that the functions below take as their first argument: \<open>fadd\<close> is \<^verbatim>\<open>+\<close>,
  \<open>fdiv\<close> is \<^verbatim>\<open>/\<close>, \<open>fround2\<close> is \<^verbatim>\<open>round(x, 2)\<close> and \<open>fsum\<close> is the builtin
  \<^verbatim>\<open>sum\<close> on a list of floats. Comparisons of floats are the comparisons of the reals.
\<close>

record float_ops =
  fadd :: "real \<Rightarrow> real \<Rightarrow> real"
  fdiv :: "real \<Rightarrow> real \<Rightarrow> real"
  fround2 :: "real \<Rightarrow> real"
  fsum :: "real list \<Rightarrow> real"

text \<open>
  The operations on binary64 numbers (IEEE 754 doubles, the floats of CPython), for
  results within the range of the finite doubles. \<open>to_double x\<close> is the double nearest
  to \<open>x\<close>, a tie going to the even significand: a multiple of \<open>2 ^ (e - 52)\<close> when
  \<open>2 ^ e \<le> \<bar>x\<bar> < 2 ^ (e + 1)\<close>, and of \<open>2 ^ (- 1074)\<close> below the normal range.
\<close>

definition round_half_even :: "real \<Rightarrow> int" where
  "round_half_even x =
     (let f = \<lfloor>x\<rfloor>; d = x - of_int f
      in if d < 1 / 2 then f
         else if 1 / 2 < d then f + 1
         else if even f then f else f + 1)"

text \<open>The exponent \<open>e\<close> with \<open>2 ^ e \<le> a < 2 ^ (e + 1)\<close>, for \<open>a > 0\<close>.\<close>

definition binary_exponent :: "real \<Rightarrow> int" where
  "binary_exponent a =
     (if 1 \<le> a then int (floorlog 2 (nat \<lfloor>a\<rfloor>)) - 1
      else - int (floorlog 2 (nat \<lceil>1 / a\<rceil> - 1)))"

definition pow2 :: "int \<Rightarrow> real" where
  "pow2 k = (if 0 \<le> k then 2 ^ nat k else 1 / 2 ^ nat (- k))"

definition to_double :: "real \<Rightarrow> real" where
  "to_double x =
     (if x = 0 then 0
      else (let q = pow2 (max (binary_exponent \<bar>x\<bar> - 52) (- 1074))
            in q * of_int (round_half_even (x / q))))"

text \<open>
  \<^verbatim>\<open>round(x, 2)\<close> of a float: the exact value of \<open>x\<close> is rounded to the nearest
  multiple of 1/100, a tie going to the even one, and the decimal that results is
  converted to the nearest double.
\<close>

definition decimal_round2 :: "real \<Rightarrow> real" where
  "decimal_round2 x = of_int (round_half_even (x * 100)) / 100"

text \<open>
  The sum of the builtin \<^verbatim>\<open>sum\<close> starts from the integer 0 and adds the floats one
  after the other from the left, each addition rounded.
\<close>

definition double_ops :: float_ops where
  "double_ops =
     \<lparr>fadd = (\<lambda>a b. to_double (a + b)),
      fdiv = (\<lambda>a b. to_double (a / b)),
      fround2 = (\<lambda>x. to_double (decimal_round2 x)),
      fsum = foldl (\<lambda>a b. to_double (a + b)) 0\<rparr>"

section \<open>The result service\<close>

text \<open>
  \<^verbatim>\<open>subjects = {s.subject_id: s.subject_code for s in Subject.query.all()}\<close>:
  a later row with the same id overwrites an earlier one.
\<close>

definition subjects_map :: "subject list \<Rightarrow> (nat \<rightharpoonup> string)" where
  "subjects_map ss = fold (\<lambda>s m. m(subject_id s \<mapsto> subject_code s)) ss Map.empty"

text \<open>
  \<^verbatim>\<open>code = subjects.get(id)\<close> followed by \<^verbatim>\<open>if code:\<close> (or \<^verbatim>\<open>if not code: continue\<close>):
  a missing id and an empty code are both skipped.
\<close>

definition lookup_code :: "(nat \<rightharpoonup> string) \<Rightarrow> nat \<Rightarrow> string option" where
  "lookup_code subj sid =
     (case subj sid of None \<Rightarrow> None | Some c \<Rightarrow> (if c = [] then None else Some c))"

text \<open>The dictionary \<^verbatim>\<open>mark_map\<close>: subject code to the last mark carrying that code.\<close>

definition build_mark_map :: "(nat \<rightharpoonup> string) \<Rightarrow> mark list \<Rightarrow> (string \<rightharpoonup> mark)" where
  "build_mark_map subj ms =
     fold (\<lambda>m mm. case lookup_code subj (m_subject_id m) of
                     None \<Rightarrow> mm
                   | Some c \<Rightarrow> mm(c \<mapsto> m)) ms Map.empty"

definition grading_only :: "string list" where
  "grading_only = [''EVS'', ''PE'']"

definition optional_codes :: "string list" where
  "optional_codes = [''HINDI'', ''IT'', ''MATHS'', ''SP'']"

text \<open>The loop over the allocations, appending to \<^verbatim>\<open>base_required\<close>.\<close>

fun collect_required :: "(nat \<rightharpoonup> string) \<Rightarrow> allocation list \<Rightarrow> string list \<Rightarrow> string list" where
  "collect_required subj [] acc = acc"
| "collect_required subj (a # as) acc =
     (case lookup_code subj (a_subject_id a) of
        None \<Rightarrow> collect_required subj as acc
      | Some c \<Rightarrow>
          (if c \<in> set grading_only \<or> c \<in> set optional_codes then collect_required subj as acc
           else if c \<notin> set acc then collect_required subj as (acc @ [c])
           else collect_required subj as acc))"

definition base_required :: "(nat \<rightharpoonup> string) \<Rightarrow> allocation list \<Rightarrow> string list" where
  "base_required subj allocs =
     (if allocs \<noteq> [] then collect_required subj allocs []
      else [''ENG'', ''ECO'', ''BK'', ''OC''])"

definition optional_required :: "student \<Rightarrow> string list" where
  "optional_required s =
     (case optional_subject s of
        None \<Rightarrow> []
      | Some c \<Rightarrow> (if c = ''HINDI'' \<or> c = ''IT'' then [c] else []))
     @
     (case optional_subject_2 s of
        None \<Rightarrow> []
      | Some c \<Rightarrow> (if c = ''MATHS'' \<or> c = ''SP'' then [c] else []))"

definition required_codes :: "(nat \<rightharpoonup> string) \<Rightarrow> allocation list \<Rightarrow> student \<Rightarrow> string list" where
  "required_codes subj allocs s = base_required subj allocs @ optional_required s"

text \<open>\<^verbatim>\<open>if not m or m.annual is None\<close> for some required code.\<close>

definition unsatisfied :: "(string \<rightharpoonup> mark) \<Rightarrow> string \<Rightarrow> bool" where
  "unsatisfied mm c = (case mm c of None \<Rightarrow> True | Some m \<Rightarrow> annual m = None)"

definition missing_required :: "(string \<rightharpoonup> mark) \<Rightarrow> string list \<Rightarrow> bool" where
  "missing_required mm codes = list_ex (unsatisfied mm) codes"

text \<open>The threshold chain that the service applies to the EVS and to the PE mark.\<close>

definition letter_grade :: "real \<Rightarrow> string" where
  "letter_grade a =
     (if a \<ge> 75 then ''A+''
      else if a \<ge> 60 then ''A''
      else if a \<ge> 50 then ''B''
      else if a \<ge> 35 then ''C''
      else ''F'')"

text \<open>\<^verbatim>\<open>m.annual if m and m.annual is not None else 0.0\<close>, and the same for grace.\<close>

definition annual_or_zero :: "mark option \<Rightarrow> real" where
  "annual_or_zero mo =
     (case mo of None \<Rightarrow> 0 | Some m \<Rightarrow> (case annual m of None \<Rightarrow> 0 | Some a \<Rightarrow> a))"

definition grace_or_zero :: "mark option \<Rightarrow> real" where
  "grace_or_zero mo =
     (case mo of None \<Rightarrow> 0 | Some m \<Rightarrow> (case grace m of None \<Rightarrow> 0 | Some g \<Rightarrow> g))"

text \<open>
  One round of the loop over the core subjects: when the mark exists, the two fields of
  the subject are set (\<^verbatim>\<open>setattr\<close>), the annual is added and the count grows.
\<close>

definition core_step ::
  "float_ops \<Rightarrow> (string \<rightharpoonup> mark) \<Rightarrow> string \<Rightarrow> (real option \<Rightarrow> result \<Rightarrow> result) \<Rightarrow>
   (real option \<Rightarrow> result \<Rightarrow> result) \<Rightarrow> result \<times> real \<times> nat \<Rightarrow> result \<times> real \<times> nat" where
  "core_step ops mm c set_avg set_grace st =
     (case st of (r, tsum, n) \<Rightarrow>
        (case mm c of
           None \<Rightarrow> (r, tsum, n)
         | Some m \<Rightarrow>
             (set_grace (Some (grace_or_zero (Some m))) (set_avg (Some (annual_or_zero (Some m))) r),
              fadd ops tsum (annual_or_zero (Some m)), n + 1)))"

definition core_subjects :: "float_ops \<Rightarrow> (string \<rightharpoonup> mark) \<Rightarrow> result \<times> real \<times> nat \<Rightarrow> result \<times> real \<times> nat" where
  "core_subjects ops mm st =
     core_step ops mm ''OC'' (\<lambda>v r. r\<lparr>oc_avg := v\<rparr>) (\<lambda>v r. r\<lparr>oc_grace := v\<rparr>)
       (core_step ops mm ''BK'' (\<lambda>v r. r\<lparr>bk_avg := v\<rparr>) (\<lambda>v r. r\<lparr>bk_grace := v\<rparr>)
         (core_step ops mm ''ECO'' (\<lambda>v r. r\<lparr>eco_avg := v\<rparr>) (\<lambda>v r. r\<lparr>eco_grace := v\<rparr>)
           (core_step ops mm ''ENG'' (\<lambda>v r. r\<lparr>eng_avg := v\<rparr>) (\<lambda>v r. r\<lparr>eng_grace := v\<rparr>) st)))"

definition optional_group_1 ::
  "float_ops \<Rightarrow> student \<Rightarrow> (string \<rightharpoonup> mark) \<Rightarrow> result \<times> real \<times> nat \<Rightarrow> result \<times> real \<times> nat" where
  "optional_group_1 ops s mm st =
     (case st of (r, tsum, n) \<Rightarrow>
        if optional_subject s = Some ''HINDI'' then
          (r\<lparr>hindi_avg := Some (annual_or_zero (mm ''HINDI'')),
             hindi_grace := Some (grace_or_zero (mm ''HINDI''))\<rparr>,
           fadd ops tsum (annual_or_zero (mm ''HINDI'')), n + 1)
        else if optional_subject s = Some ''IT'' then
          (r\<lparr>it_avg := Some (annual_or_zero (mm ''IT'')),
             it_grace := Some (grace_or_zero (mm ''IT''))\<rparr>,
           fadd ops tsum (annual_or_zero (mm ''IT'')), n + 1)
        else (r, tsum, n))"

definition optional_group_2 ::
  "float_ops \<Rightarrow> student \<Rightarrow> (string \<rightharpoonup> mark) \<Rightarrow> result \<times> real \<times> nat \<Rightarrow> result \<times> real \<times> nat" where
  "optional_group_2 ops s mm st =
     (case st of (r, tsum, n) \<Rightarrow>
        if optional_subject_2 s = Some ''MATHS'' then
          (r\<lparr>maths_avg := Some (annual_or_zero (mm ''MATHS'')),
             maths_grace := Some (grace_or_zero (mm ''MATHS''))\<rparr>,
           fadd ops tsum (annual_or_zero (mm ''MATHS'')), n + 1)
        else if optional_subject_2 s = Some ''SP'' then
          (r\<lparr>sp_avg := Some (annual_or_zero (mm ''SP'')),
             sp_grace := Some (grace_or_zero (mm ''SP''))\<rparr>,
           fadd ops tsum (annual_or_zero (mm ''SP'')), n + 1)
        else (r, tsum, n))"

text \<open>
  \<^verbatim>\<open>sum(g for g in [...] if g is not None)\<close> over the seven listed fields: the
  fields that are not null, in the order of the list, are handed to \<^verbatim>\<open>sum\<close>.
\<close>

fun present :: "'a option list \<Rightarrow> 'a list" where
  "present [] = []"
| "present (None # gs) = present gs"
| "present (Some v # gs) = v # present gs"

definition grace_fields :: "result \<Rightarrow> real option list" where
  "grace_fields r =
     [eng_grace r, hindi_grace r, it_grace r, maths_grace r, sp_grace r, bk_grace r, oc_grace r]"

definition sum_present :: "float_ops \<Rightarrow> real option list \<Rightarrow> real" where
  "sum_present ops gs = fsum ops (present gs)"

definition final_calc :: "float_ops \<Rightarrow> result \<times> real \<times> nat \<Rightarrow> result" where
  "final_calc ops st =
     (case st of (r, tsum, n) \<Rightarrow>
        (let r1 = r\<lparr>total_grace := Some (sum_present ops (grace_fields r))\<rparr>
         in if n > 0 then r1\<lparr>percentage := Some (fround2 ops (fdiv ops tsum (of_nat n)))\<rparr> else r1))"

definition evs_grading :: "(string \<rightharpoonup> mark) \<Rightarrow> result \<Rightarrow> result" where
  "evs_grading mm r =
     (case mm ''EVS'' of
        None \<Rightarrow> r
      | Some m \<Rightarrow> (case annual m of None \<Rightarrow> r | Some a \<Rightarrow> r\<lparr>evs_grade := Some (letter_grade a)\<rparr>))"

definition pe_grading :: "(string \<rightharpoonup> mark) \<Rightarrow> result \<Rightarrow> result" where
  "pe_grading mm r =
     (case mm ''PE'' of
        None \<Rightarrow> r
      | Some m \<Rightarrow> (case annual m of None \<Rightarrow> r | Some a \<Rightarrow> r\<lparr>pe_grade := Some (letter_grade a)\<rparr>))"

text \<open>Everything the loop body does to the result object of a complete student.\<close>

definition compute_result :: "float_ops \<Rightarrow> student \<Rightarrow> (string \<rightharpoonup> mark) \<Rightarrow> result \<Rightarrow> result" where
  "compute_result ops s mm r =
     pe_grading mm (evs_grading mm
       (final_calc ops (optional_group_2 ops s mm (optional_group_1 ops s mm (core_subjects ops mm (r, 0, 0))))))"

text \<open>
  \<^verbatim>\<open>Result()\<close> with the three attributes that the service assigns. Every other field
  is absent until the service writes it, as the specification has it for a field that
  was never set.
\<close>

definition new_result :: "student \<Rightarrow> result" where
  "new_result s =
     \<lparr>r_roll_no = s_roll_no s, r_name = s_name s, r_division = s_division s,
      eng_avg = None, eng_grace = None, eco_avg = None, eco_grace = None,
      bk_avg = None, bk_grace = None, oc_avg = None, oc_grace = None,
      hindi_avg = None, hindi_grace = None, it_avg = None, it_grace = None,
      maths_avg = None, maths_grace = None, sp_avg = None, sp_grace = None,
      total_grace = None, percentage = None, evs_grade = None, pe_grade = None\<rparr>"

text \<open>\<^verbatim>\<open>Result.query.filter_by(roll_no=student.roll_no, division=student.division)\<close>.\<close>

definition result_of :: "student \<Rightarrow> result \<Rightarrow> bool" where
  "result_of s r = (r_roll_no r = s_roll_no s \<and> r_division r = s_division s)"

text \<open>Writing to the object that \<^verbatim>\<open>.first()\<close> returned: the first matching row changes.\<close>

fun update_first :: "('a \<Rightarrow> bool) \<Rightarrow> ('a \<Rightarrow> 'a) \<Rightarrow> 'a list \<Rightarrow> 'a list" where
  "update_first P f [] = []"
| "update_first P f (x # xs) = (if P x then f x # xs else x # update_first P f xs)"

definition student_marks :: "db \<Rightarrow> student \<Rightarrow> mark list" where
  "student_marks d s =
     filter (\<lambda>m. m_roll_no m = s_roll_no s \<and> m_division m = s_division s) (marks d)"

definition student_mark_map :: "db \<Rightarrow> student \<Rightarrow> (string \<rightharpoonup> mark)" where
  "student_mark_map d s = build_mark_map (subjects_map (subjects d)) (student_marks d s)"

definition student_required :: "db \<Rightarrow> student \<Rightarrow> string list" where
  "student_required d s =
     required_codes (subjects_map (subjects d))
       (filter (\<lambda>a. a_division a = s_division s) (allocations d)) s"

definition incomplete :: "db \<Rightarrow> student \<Rightarrow> bool" where
  "incomplete d s = missing_required (student_mark_map d s) (student_required d s)"

text \<open>The body of the loop over the students, as a function on the Result table.\<close>

definition process_student :: "float_ops \<Rightarrow> db \<Rightarrow> student \<Rightarrow> result list \<Rightarrow> result list" where
  "process_student ops d s rs =
     (if incomplete d s then
        (case find (result_of s) rs of
           None \<Rightarrow> rs
         | Some existing \<Rightarrow> update_first (result_of s) (\<lambda>r. r\<lparr>percentage := None\<rparr>) rs)
      else
        (case find (result_of s) rs of
           None \<Rightarrow> rs @ [compute_result ops s (student_mark_map d s) (new_result s)]
         | Some existing \<Rightarrow> update_first (result_of s) (compute_result ops s (student_mark_map d s)) rs))"

definition division_students :: "string \<Rightarrow> db \<Rightarrow> student list" where
  "division_students dv d = filter (\<lambda>s. s_division s = dv) (students d)"

definition generate_results_for_division :: "float_ops \<Rightarrow> string \<Rightarrow> db \<Rightarrow> db" where
  "generate_results_for_division ops dv d =
     d\<lparr>results := fold (process_student ops d) (division_students dv d) (results d)\<rparr>"

section \<open>The mark routes of the teacher\<close>

text \<open>
  A handler is a function from the request and the database to the response and the
  database as committed. \<open>Raised\<close> is an exception that leaves the handler (nothing
  is committed after it). The body of a request is the dictionary that the schema has
  loaded; a key that is absent is \<open>None\<close>. The declared ceiling \<^verbatim>\<open>GRACE_MAX\<close> of the
  configuration is the parameter \<open>gmax\<close>.
\<close>

datatype response = Status nat | Raised

record enter_data =
  e_subject_id :: "nat option"
  e_roll_no :: "string option"
  e_division :: "string option"
  e_unit1 :: "real option"
  e_unit2 :: "real option"
  e_term :: "real option"
  e_annual :: "real option"
  e_grace :: "real option"

record update_data =
  u_unit1 :: "real option"
  u_unit2 :: "real option"
  u_term :: "real option"
  u_annual :: "real option"
  u_grace :: "real option"

text \<open>\<^verbatim>\<open>float(data.get(key, 0))\<close>.\<close>

definition get_or_zero :: "real option \<Rightarrow> real" where
  "get_or_zero v = (case v of None \<Rightarrow> 0 | Some x \<Rightarrow> x)"

definition check_teacher_allocation :: "db \<Rightarrow> nat \<Rightarrow> nat \<Rightarrow> string \<Rightarrow> allocation option" where
  "check_teacher_allocation d teacher sid dv =
     find (\<lambda>a. a_teacher_id a = teacher \<and> a_subject_id a = sid \<and> a_division a = dv) (allocations d)"

text \<open>The key that the database gives to an inserted mark: one not in use.\<close>

definition next_mark_id :: "mark list \<Rightarrow> nat" where
  "next_mark_id ms = Suc (fold max (map mark_id ms) 0)"

definition enter_marks :: "float_ops \<Rightarrow> int \<Rightarrow> nat \<Rightarrow> enter_data \<Rightarrow> db \<Rightarrow> response \<times> db" where
  "enter_marks ops gmax user_id data d =
     (case (case e_subject_id data of
              None \<Rightarrow> None
            | Some sid \<Rightarrow> find (\<lambda>s. subject_id s = sid) (subjects d)) of
        None \<Rightarrow> (Status 404, d)
      | Some subj \<Rightarrow>
         (case (case e_division data of
                  None \<Rightarrow> None
                | Some dv \<Rightarrow> check_teacher_allocation d user_id (subject_id subj) dv) of
            None \<Rightarrow> (Status 403, d)
          | Some alloc \<Rightarrow>
             (case find (\<lambda>s. Some (s_roll_no s) = e_roll_no data \<and>
                               Some (s_division s) = e_division data) (students d) of
                None \<Rightarrow> (Status 404, d)
              | Some st \<Rightarrow>
                 if (subject_code subj = ''HINDI'' \<or> subject_code subj = ''IT'') \<and>
                    optional_subject st \<noteq> Some (subject_code subj) then (Status 400, d)
                 else if (subject_code subj = ''MATHS'' \<or> subject_code subj = ''SP'') \<and>
                    optional_subject_2 st \<noteq> Some (subject_code subj) then (Status 400, d)
                 else if find (\<lambda>m. m_roll_no m = s_roll_no st \<and> m_division m = s_division st \<and>
                                    m_subject_id m = subject_id subj) (marks d) \<noteq> None
                   then (Status 409, d)
                 else
                   (let u1 = get_or_zero (e_unit1 data);
                        u2 = get_or_zero (e_unit2 data);
                        tm = get_or_zero (e_term data);
                        an = get_or_zero (e_annual data);
                        gr = get_or_zero (e_grace data)
                    in if u1 < 0 \<or> u1 > 25 \<or> u2 < 0 \<or> u2 > 25 then (Status 400, d)
                       else if tm < 0 \<or> tm > 50 then (Status 400, d)
                       else if an < 0 \<or> an > 100 then (Status 400, d)
                       else if gr < 0 \<or> gr > of_int gmax then (Status 400, d)
                       else
                         (let tsum = fadd ops (fadd ops (fadd ops u1 u2) tm) an;
                              new_mark =
                                \<lparr>mark_id = next_mark_id (marks d),
                                 m_roll_no = s_roll_no st,
                                 m_division = s_division st,
                                 m_subject_id = subject_id subj,
                                 unit1 = Some u1, unit2 = Some u2, term_mark = Some tm,
                                 annual = Some an, tot = Some tsum,
                                 sub_avg = Some (fround2 ops (fdiv ops tsum 2)),
                                 grace = Some 0, entered_by = user_id\<rparr>
                          in (Status 201, d\<lparr>marks := marks d @ [new_mark]\<rparr>))))))"

text \<open>
  The two handlers below end with \<^verbatim>\<open>try: generate_results_for_division(...) except
  Exception: pass\<close>. The recomputation is the parameter \<open>regen\<close>, whose value \<open>None\<close>
  is an exception raised by it; the application passes \<open>service ops\<close>.
\<close>

definition try_regenerate :: "(string \<Rightarrow> db \<Rightarrow> db option) \<Rightarrow> string \<Rightarrow> db \<Rightarrow> db" where
  "try_regenerate regen dv d = (case regen dv d of None \<Rightarrow> d | Some d' \<Rightarrow> d')"

definition service :: "float_ops \<Rightarrow> string \<Rightarrow> db \<Rightarrow> db option" where
  "service ops dv d = Some (generate_results_for_division ops dv d)"

definition update_marks ::
  "float_ops \<Rightarrow> (string \<Rightarrow> db \<Rightarrow> db option) \<Rightarrow> int \<Rightarrow> nat \<Rightarrow> nat \<Rightarrow> update_data \<Rightarrow> db \<Rightarrow> response \<times> db" where
  "update_marks ops regen gmax mid user_id data d =
     (case find (\<lambda>m. mark_id m = mid) (marks d) of
        None \<Rightarrow> (Status 404, d)
      | Some mk \<Rightarrow>
         (case find (\<lambda>s. subject_id s = m_subject_id mk) (subjects d) of
            None \<Rightarrow> (Status 404, d)
          | Some subj \<Rightarrow>
             (case check_teacher_allocation d user_id (subject_id subj) (m_division mk) of
                None \<Rightarrow> (Status 403, d)
              | Some alloc \<Rightarrow>
                 (let u1 = get_or_zero (u_unit1 data);
                      u2 = get_or_zero (u_unit2 data);
                      tm = get_or_zero (u_term data);
                      an = get_or_zero (u_annual data)
                  in if u1 < 0 \<or> u1 > 25 \<or> u2 < 0 \<or> u2 > 25 then (Status 400, d)
                     else if tm < 0 \<or> tm > 50 then (Status 400, d)
                     else if an < 0 \<or> an > 100 then (Status 400, d)
                     else
                       (case (case u_grace data of Some g \<Rightarrow> Some g | None \<Rightarrow> grace mk) of
                          None \<Rightarrow> (Raised, d)
                        | Some gr \<Rightarrow>
                           if gr < 0 \<or> gr > of_int gmax then (Status 400, d)
                           else if u_unit1 data = None \<or> u_unit2 data = None \<or>
                                   u_term data = None \<or> u_annual data = None then (Raised, d)
                           else
                             (let tsum = fadd ops (fadd ops (fadd ops u1 u2) tm) an;
                                  mk1 = mk\<lparr>unit1 := u_unit1 data, unit2 := u_unit2 data,
                                           term_mark := u_term data, annual := u_annual data,
                                           tot := Some tsum,
                                           sub_avg := Some (fround2 ops (fdiv ops tsum 2))\<rparr>;
                                  mk2 = (case u_grace data of
                                           None \<Rightarrow> mk1
                                         | Some g \<Rightarrow> mk1\<lparr>grace := Some g\<rparr>);
                                  committed =
                                    d\<lparr>marks := update_first (\<lambda>m. mark_id m = mid) (\<lambda>_. mk2) (marks d)\<rparr>
                              in (Status 200, try_regenerate regen (m_division mk) committed)))))))"

definition delete_mark ::
  "(string \<Rightarrow> db \<Rightarrow> db option) \<Rightarrow> nat \<Rightarrow> nat \<Rightarrow> string \<Rightarrow> db \<Rightarrow> response \<times> db" where
  "delete_mark regen mid user_id user_type d =
     (case find (\<lambda>m. mark_id m = mid) (marks d) of
        None \<Rightarrow> (Status 404, d)
      | Some mk \<Rightarrow>
         if user_type \<noteq> ''ADMIN'' \<and> entered_by mk \<noteq> user_id then (Status 403, d)
         else (Status 200,
               try_regenerate regen (m_division mk) (d\<lparr>marks := remove1 mk (marks d)\<rparr>)))"

section \<open>Notions used in the statements\<close>

text \<open>
  A write that may not happen: \<open>keep w old\<close> is the new value of a field that is
  assigned \<open>v\<close> when \<open>w = Some v\<close> and left alone when \<open>w = None\<close>.
\<close>

definition keep :: "'a option \<Rightarrow> 'a option \<Rightarrow> 'a option" where
  "keep w old = (case w of None \<Rightarrow> old | Some v \<Rightarrow> Some v)"

definition core_codes :: "string list" where
  "core_codes = [''ENG'', ''ECO'', ''BK'', ''OC'']"

definition wr_avg :: "(string \<rightharpoonup> mark) \<Rightarrow> string \<Rightarrow> real option" where
  "wr_avg mm c = map_option (\<lambda>m. annual_or_zero (Some m)) (mm c)"

definition wr_grace :: "(string \<rightharpoonup> mark) \<Rightarrow> string \<Rightarrow> real option" where
  "wr_grace mm c = map_option (\<lambda>m. grace_or_zero (Some m)) (mm c)"

definition wr_opt_avg :: "string option \<Rightarrow> (string \<rightharpoonup> mark) \<Rightarrow> string \<Rightarrow> real option" where
  "wr_opt_avg choice mm c = (if choice = Some c then Some (annual_or_zero (mm c)) else None)"

definition wr_opt_grace :: "string option \<Rightarrow> (string \<rightharpoonup> mark) \<Rightarrow> string \<Rightarrow> real option" where
  "wr_opt_grace choice mm c = (if choice = Some c then Some (grace_or_zero (mm c)) else None)"

definition wr_grade :: "(string \<rightharpoonup> mark) \<Rightarrow> string \<Rightarrow> string option" where
  "wr_grade mm c = (case mm c of None \<Rightarrow> None | Some m \<Rightarrow> map_option letter_grade (annual m))"

definition opt1_codes :: "student \<Rightarrow> string list" where
  "opt1_codes s =
     (if optional_subject s = Some ''HINDI'' then [''HINDI'']
      else if optional_subject s = Some ''IT'' then [''IT''] else [])"

definition opt2_codes :: "student \<Rightarrow> string list" where
  "opt2_codes s =
     (if optional_subject_2 s = Some ''MATHS'' then [''MATHS'']
      else if optional_subject_2 s = Some ''SP'' then [''SP''] else [])"

text \<open>
  The subjects that the scoring adds up: those of the four core codes for which the
  student has a mark, then the chosen optional subjects.
\<close>

definition scored_codes :: "student \<Rightarrow> (string \<rightharpoonup> mark) \<Rightarrow> string list" where
  "scored_codes s mm = filter (\<lambda>c. mm c \<noteq> None) core_codes @ optional_required s"

definition scored_sum :: "float_ops \<Rightarrow> student \<Rightarrow> (string \<rightharpoonup> mark) \<Rightarrow> real" where
  "scored_sum ops s mm = foldl (fadd ops) 0 (map (\<lambda>c. annual_or_zero (mm c)) (scored_codes s mm))"

definition wr_percentage :: "float_ops \<Rightarrow> student \<Rightarrow> (string \<rightharpoonup> mark) \<Rightarrow> real option" where
  "wr_percentage ops s mm =
     (if scored_codes s mm = [] then None
      else Some (fround2 ops (fdiv ops (scored_sum ops s mm) (of_nat (length (scored_codes s mm))))))"

text \<open>
  What one pass makes of the row that \<^verbatim>\<open>.first()\<close> finds for a student (\<open>None\<close>: there
  is no row).
\<close>

definition row_after :: "float_ops \<Rightarrow> db \<Rightarrow> student \<Rightarrow> result option \<Rightarrow> result option" where
  "row_after ops d s old =
     (if incomplete d s then map_option (\<lambda>r. r\<lparr>percentage := None\<rparr>) old
      else Some (compute_result ops s (student_mark_map d s)
                   (case old of None \<Rightarrow> new_result s | Some r \<Rightarrow> r)))"

subsection \<open>The required subjects in the words of the specification\<close>

text \<open>Removing duplicates, the first occurrence of each element staying where it is.\<close>

fun dedup_first :: "'a list \<Rightarrow> 'a list" where
  "dedup_first [] = []"
| "dedup_first (x # xs) = x # dedup_first (removeAll x xs)"

definition allocated_codes :: "(nat \<rightharpoonup> string) \<Rightarrow> allocation list \<Rightarrow> string list" where
  "allocated_codes subj allocs = List.map_filter (\<lambda>a. lookup_code subj (a_subject_id a)) allocs"

definition derived_core :: "(nat \<rightharpoonup> string) \<Rightarrow> allocation list \<Rightarrow> string list" where
  "derived_core subj allocs =
     dedup_first (filter (\<lambda>c. c \<notin> {''EVS'', ''PE''} \<and> c \<notin> {''HINDI'', ''IT'', ''MATHS'', ''SP''})
                    (allocated_codes subj allocs))"

definition chosen_optionals :: "student \<Rightarrow> string list" where
  "chosen_optionals s =
     filter (\<lambda>c. c = ''HINDI'' \<or> c = ''IT'')
       (case optional_subject s of None \<Rightarrow> [] | Some c \<Rightarrow> [c])
     @
     filter (\<lambda>c. c = ''MATHS'' \<or> c = ''SP'')
       (case optional_subject_2 s of None \<Rightarrow> [] | Some c \<Rightarrow> [c])"

text \<open>The list as the specification words it: the fallback when the derived list is empty.\<close>

definition spec_required_codes :: "(nat \<rightharpoonup> string) \<Rightarrow> allocation list \<Rightarrow> student \<Rightarrow> string list" where
  "spec_required_codes subj allocs s =
     (if derived_core subj allocs = [] then [''ENG'', ''ECO'', ''BK'', ''OC'']
      else derived_core subj allocs) @ chosen_optionals s"

text \<open>The same with the fallback taken when the division has no allocation at all.\<close>

definition amended_required_codes :: "(nat \<rightharpoonup> string) \<Rightarrow> allocation list \<Rightarrow> student \<Rightarrow> string list" where
  "amended_required_codes subj allocs s =
     (if allocs = [] then [''ENG'', ''ECO'', ''BK'', ''OC'']
      else derived_core subj allocs) @ chosen_optionals s"

text \<open>The codes that the loop over the allocations lets through.\<close>

definition wanted :: "string \<Rightarrow> bool" where
  "wanted c = (c \<notin> {''EVS'', ''PE''} \<and> c \<notin> {''HINDI'', ''IT'', ''MATHS'', ''SP''})"

subsection \<open>What a request to enter marks may come to\<close>

text \<open>
  Either the request is refused and the database is as it was, or it succeeds, the
  supplied grace is within the bounds, and one mark with grace 0 is appended.
\<close>

definition enter_outcome :: "int \<Rightarrow> enter_data \<Rightarrow> db \<Rightarrow> response \<times> db \<Rightarrow> bool" where
  "enter_outcome gmax data d out =
     (case out of (resp, d') \<Rightarrow>
        (resp \<noteq> Status 201 \<and> d' = d) \<or>
        (resp = Status 201 \<and> 0 \<le> get_or_zero (e_grace data) \<and> get_or_zero (e_grace data) \<le> of_int gmax
           \<and> d' = d\<lparr>marks := marks d @ [last (marks d')]\<rparr> \<and> grace (last (marks d')) = Some 0))"

subsection \<open>The loop body in two moves\<close>

text \<open>
  What the loop body does to the row of a student, the insertion of a missing row and
  the update of the first matching row; the loop body is the insertion followed by the
  update.
\<close>

definition row_step :: "float_ops \<Rightarrow> db \<Rightarrow> student \<Rightarrow> result \<Rightarrow> result" where
  "row_step ops d s r =
     (if incomplete d s then r\<lparr>percentage := None\<rparr> else compute_result ops s (student_mark_map d s) r)"

definition upd_row :: "float_ops \<Rightarrow> db \<Rightarrow> student \<Rightarrow> result list \<Rightarrow> result list" where
  "upd_row ops d s rs = update_first (result_of s) (row_step ops d s) rs"

definition add_row :: "db \<Rightarrow> student \<Rightarrow> result list \<Rightarrow> result list" where
  "add_row d s rs =
     (if \<not> incomplete d s \<and> find (result_of s) rs = None then rs @ [new_result s] else rs)"

text \<open>A student who is complete has a row.\<close>

definition has_row :: "db \<Rightarrow> student \<Rightarrow> result list \<Rightarrow> bool" where
  "has_row d s rs = (incomplete d s \<or> find (result_of s) rs \<noteq> None)"

section \<open>Sample data\<close>

definition sample_subjects :: "subject list" where
  "sample_subjects =
     [\<lparr>subject_id = 1, subject_code = ''ENG''\<rparr>, \<lparr>subject_id = 2, subject_code = ''ECO''\<rparr>,
      \<lparr>subject_id = 3, subject_code = ''BK''\<rparr>, \<lparr>subject_id = 4, subject_code = ''OC''\<rparr>,
      \<lparr>subject_id = 5, subject_code = ''HINDI''\<rparr>, \<lparr>subject_id = 6, subject_code = ''MATHS''\<rparr>,
      \<lparr>subject_id = 7, subject_code = ''EVS''\<rparr>, \<lparr>subject_id = 8, subject_code = ''PE''\<rparr>,
      \<lparr>subject_id = 9, subject_code = ''ACC''\<rparr>]"

definition sample_alloc :: "nat \<Rightarrow> allocation" where
  "sample_alloc sid = \<lparr>a_teacher_id = 7, a_subject_id = sid, a_division = ''A''\<rparr>"

definition sample_mark :: "nat \<Rightarrow> string \<Rightarrow> nat \<Rightarrow> real option \<Rightarrow> real option \<Rightarrow> mark" where
  "sample_mark i roll sid a g =
     \<lparr>mark_id = i, m_roll_no = roll, m_division = ''A'', m_subject_id = sid,
      unit1 = Some 20, unit2 = Some 20, term_mark = Some 40, annual = a,
      tot = None, sub_avg = None, grace = g, entered_by = 7\<rparr>"

definition asha :: student where
  "asha = \<lparr>s_roll_no = ''101'', s_name = ''Asha'', s_division = ''A'',
            optional_subject = Some ''HINDI'', optional_subject_2 = Some ''MATHS''\<rparr>"

definition ravi :: student where
  "ravi = \<lparr>s_roll_no = ''102'', s_name = ''Ravi'', s_division = ''A'',
            optional_subject = None, optional_subject_2 = None\<rparr>"

text \<open>The example of the specification, with an EVS and a PE mark added.\<close>

definition db_complete :: db where
  "db_complete =
     \<lparr>students = [asha], subjects = sample_subjects,
      allocations = map sample_alloc [1, 2, 3, 4],
      marks = [sample_mark 1 ''101'' 1 (Some 80) (Some 2), sample_mark 2 ''101'' 2 (Some 70) (Some 5),
               sample_mark 3 ''101'' 3 (Some 60) None, sample_mark 4 ''101'' 4 (Some 90) (Some 1),
               sample_mark 5 ''101'' 5 (Some 75) (Some 3), sample_mark 6 ''101'' 6 (Some 65) (Some 4),
               sample_mark 7 ''101'' 7 (Some 74) None, sample_mark 8 ''101'' 8 (Some 49) None],
      results = []\<rparr>"

text \<open>The same student with a null MATHS annual and a row left by an earlier pass.\<close>

definition db_incomplete :: db where
  "db_incomplete =
     \<lparr>students = [asha], subjects = sample_subjects,
      allocations = map sample_alloc [1, 2, 3, 4],
      marks = [sample_mark 1 ''101'' 1 (Some 80) (Some 2), sample_mark 2 ''101'' 2 (Some 70) (Some 5),
               sample_mark 3 ''101'' 3 (Some 60) None, sample_mark 4 ''101'' 4 (Some 90) (Some 1),
               sample_mark 5 ''101'' 5 (Some 75) (Some 3), sample_mark 6 ''101'' 6 None (Some 4),
               sample_mark 7 ''101'' 7 (Some 74) None],
      results = [(new_result asha)\<lparr>percentage := Some 50\<rparr>]\<rparr>"

text \<open>A division in which a fifth subject, ACC, is allocated besides the four core ones.\<close>

definition db_fifth :: db where
  "db_fifth =
     \<lparr>students = [ravi], subjects = sample_subjects,
      allocations = map sample_alloc [1, 2, 3, 4, 9],
      marks = [sample_mark 1 ''102'' 1 (Some 80) None, sample_mark 2 ''102'' 2 (Some 80) None,
               sample_mark 3 ''102'' 3 (Some 80) None, sample_mark 4 ''102'' 4 (Some 80) None,
               sample_mark 5 ''102'' 9 (Some 30) None],
      results = []\<rparr>"

text \<open>
  A division in which only ENG is allocated, a student without marks, a request of
  teacher 7 that enters the ENG marks with a grace of 5, the mark that the request
  stores, and a request that updates the mark with the same grace.
\<close>


definition db_entry :: db where
  "db_entry =
     \<lparr>students = [ravi], subjects = sample_subjects,
      allocations = [sample_alloc 1],
      marks = [],
      results = []\<rparr>"

definition entry_request :: enter_data where
  "entry_request =
     \<lparr>e_subject_id = Some 1, e_roll_no = Some ''102'', e_division = Some ''A'',
      e_unit1 = Some 20, e_unit2 = Some 20, e_term = Some 40, e_annual = Some 80,
      e_grace = Some 5\<rparr>"

definition entered_mark :: "float_ops \<Rightarrow> mark" where
  "entered_mark ops =
     \<lparr>mark_id = 1, m_roll_no = ''102'', m_division = ''A'', m_subject_id = 1,
      unit1 = Some 20, unit2 = Some 20, term_mark = Some 40, annual = Some 80,
      tot = Some (fadd ops (fadd ops (fadd ops 20 20) 40) 80),
      sub_avg = Some (fround2 ops (fdiv ops (fadd ops (fadd ops (fadd ops 20 20) 40) 80) 2)),
      grace = Some 0, entered_by = 7\<rparr>"

definition update_request :: update_data where
  "update_request =
     \<lparr>u_unit1 = Some 20, u_unit2 = Some 20, u_term = Some 40, u_annual = Some 80,
      u_grace = Some 5\<rparr>"

text \<open>A division whose only allocations are a grade-only and an optional subject.\<close>

definition db_evs_only :: db where
  "db_evs_only =
     \<lparr>students = [ravi], subjects = sample_subjects,
      allocations = map sample_alloc [7, 5],
      marks = [],
      results = []\<rparr>"

section \<open>The result object of a complete student, field by field\<close>

lemma keep_simps [simp]: "keep None old = old" "keep (Some v) old = Some v"
  by (simp_all add: keep_def)

lemma keep_keep [simp]: "keep w (keep w old) = keep w old"
  by (cases w) simp_all

lemma core_step_None: "mm c = None \<Longrightarrow> core_step ops mm c sa sg (r, t, n) = (r, t, n)"
  by (simp add: core_step_def)

lemma core_step_Some:
  "mm c = Some m \<Longrightarrow> core_step ops mm c sa sg (r, t, n) =
     (sg (Some (grace_or_zero (Some m))) (sa (Some (annual_or_zero (Some m))) r),
      fadd ops t (annual_or_zero (Some m)), n + 1)"
  by (simp add: core_step_def)

lemma core_subjects_nf:
  "core_subjects ops mm (r, t, n) =
     (r\<lparr>eng_avg := keep (wr_avg mm ''ENG'') (eng_avg r),
        eng_grace := keep (wr_grace mm ''ENG'') (eng_grace r),
        eco_avg := keep (wr_avg mm ''ECO'') (eco_avg r),
        eco_grace := keep (wr_grace mm ''ECO'') (eco_grace r),
        bk_avg := keep (wr_avg mm ''BK'') (bk_avg r),
        bk_grace := keep (wr_grace mm ''BK'') (bk_grace r),
        oc_avg := keep (wr_avg mm ''OC'') (oc_avg r),
        oc_grace := keep (wr_grace mm ''OC'') (oc_grace r)\<rparr>,
      foldl (fadd ops) t (map (\<lambda>c. annual_or_zero (mm c)) (filter (\<lambda>c. mm c \<noteq> None) core_codes)),
      n + length (filter (\<lambda>c. mm c \<noteq> None) core_codes))"
  unfolding core_subjects_def core_codes_def
  by (cases "mm ''ENG''"; cases "mm ''ECO''"; cases "mm ''BK''"; cases "mm ''OC''")
     (simp_all add: core_step_None core_step_Some wr_avg_def wr_grace_def)

lemma optional_required_cases:
  "optional_required s =
     (if optional_subject s = Some ''HINDI'' then [''HINDI'']
      else if optional_subject s = Some ''IT'' then [''IT''] else [])
     @ (if optional_subject_2 s = Some ''MATHS'' then [''MATHS'']
        else if optional_subject_2 s = Some ''SP'' then [''SP''] else [])"
  by (auto simp: optional_required_def split: option.splits)

lemma optional_group_1_nf:
  "optional_group_1 ops s mm (r, t, n) =
     (r\<lparr>hindi_avg := keep (wr_opt_avg (optional_subject s) mm ''HINDI'') (hindi_avg r),
        hindi_grace := keep (wr_opt_grace (optional_subject s) mm ''HINDI'') (hindi_grace r),
        it_avg := keep (wr_opt_avg (optional_subject s) mm ''IT'') (it_avg r),
        it_grace := keep (wr_opt_grace (optional_subject s) mm ''IT'') (it_grace r)\<rparr>,
      foldl (fadd ops) t (map (\<lambda>c. annual_or_zero (mm c)) (opt1_codes s)),
      n + length (opt1_codes s))"
  by (simp add: optional_group_1_def wr_opt_avg_def wr_opt_grace_def opt1_codes_def)

lemma optional_group_2_nf:
  "optional_group_2 ops s mm (r, t, n) =
     (r\<lparr>maths_avg := keep (wr_opt_avg (optional_subject_2 s) mm ''MATHS'') (maths_avg r),
        maths_grace := keep (wr_opt_grace (optional_subject_2 s) mm ''MATHS'') (maths_grace r),
        sp_avg := keep (wr_opt_avg (optional_subject_2 s) mm ''SP'') (sp_avg r),
        sp_grace := keep (wr_opt_grace (optional_subject_2 s) mm ''SP'') (sp_grace r)\<rparr>,
      foldl (fadd ops) t (map (\<lambda>c. annual_or_zero (mm c)) (opt2_codes s)),
      n + length (opt2_codes s))"
  by (simp add: optional_group_2_def wr_opt_avg_def wr_opt_grace_def opt2_codes_def)

lemma final_calc_nf:
  "final_calc ops (r, t, n) =
     r\<lparr>total_grace := Some (sum_present ops (grace_fields r)),
       percentage := keep (if n = 0 then None else Some (fround2 ops (fdiv ops t (of_nat n)))) (percentage r)\<rparr>"
  by (simp add: final_calc_def Let_def)

lemma evs_grading_nf: "evs_grading mm r = r\<lparr>evs_grade := keep (wr_grade mm ''EVS'') (evs_grade r)\<rparr>"
  by (simp add: evs_grading_def wr_grade_def split: option.splits)

lemma pe_grading_nf: "pe_grading mm r = r\<lparr>pe_grade := keep (wr_grade mm ''PE'') (pe_grade r)\<rparr>"
  by (simp add: pe_grading_def wr_grade_def split: option.splits)

lemma scored_split:
  "scored_codes s mm = filter (\<lambda>c. mm c \<noteq> None) core_codes @ opt1_codes s @ opt2_codes s"
  by (simp add: scored_codes_def optional_required_cases opt1_codes_def opt2_codes_def)

lemma compute_result_nf:
  "compute_result ops s mm r =
     r\<lparr>eng_avg := keep (wr_avg mm ''ENG'') (eng_avg r),
       eng_grace := keep (wr_grace mm ''ENG'') (eng_grace r),
       eco_avg := keep (wr_avg mm ''ECO'') (eco_avg r),
       eco_grace := keep (wr_grace mm ''ECO'') (eco_grace r),
       bk_avg := keep (wr_avg mm ''BK'') (bk_avg r),
       bk_grace := keep (wr_grace mm ''BK'') (bk_grace r),
       oc_avg := keep (wr_avg mm ''OC'') (oc_avg r),
       oc_grace := keep (wr_grace mm ''OC'') (oc_grace r),
       hindi_avg := keep (wr_opt_avg (optional_subject s) mm ''HINDI'') (hindi_avg r),
       hindi_grace := keep (wr_opt_grace (optional_subject s) mm ''HINDI'') (hindi_grace r),
       it_avg := keep (wr_opt_avg (optional_subject s) mm ''IT'') (it_avg r),
       it_grace := keep (wr_opt_grace (optional_subject s) mm ''IT'') (it_grace r),
       maths_avg := keep (wr_opt_avg (optional_subject_2 s) mm ''MATHS'') (maths_avg r),
       maths_grace := keep (wr_opt_grace (optional_subject_2 s) mm ''MATHS'') (maths_grace r),
       sp_avg := keep (wr_opt_avg (optional_subject_2 s) mm ''SP'') (sp_avg r),
       sp_grace := keep (wr_opt_grace (optional_subject_2 s) mm ''SP'') (sp_grace r),
       total_grace := Some (sum_present ops
         [keep (wr_grace mm ''ENG'') (eng_grace r),
          keep (wr_opt_grace (optional_subject s) mm ''HINDI'') (hindi_grace r),
          keep (wr_opt_grace (optional_subject s) mm ''IT'') (it_grace r),
          keep (wr_opt_grace (optional_subject_2 s) mm ''MATHS'') (maths_grace r),
          keep (wr_opt_grace (optional_subject_2 s) mm ''SP'') (sp_grace r),
          keep (wr_grace mm ''BK'') (bk_grace r),
          keep (wr_grace mm ''OC'') (oc_grace r)]),
       percentage := keep (wr_percentage ops s mm) (percentage r),
       evs_grade := keep (wr_grade mm ''EVS'') (evs_grade r),
       pe_grade := keep (wr_grade mm ''PE'') (pe_grade r)\<rparr>"
proof -
  have n0: "(length (filter (\<lambda>c. mm c \<noteq> None) core_codes) + length (opt1_codes s) + length (opt2_codes s) = 0)
      = (scored_codes s mm = [])"
    by (simp add: scored_split)
  show ?thesis
    unfolding compute_result_def
    by (simp add: core_subjects_nf optional_group_1_nf optional_group_2_nf final_calc_nf
        evs_grading_nf pe_grading_nf grace_fields_def wr_percentage_def scored_sum_def
        scored_split add.assoc del: of_nat_add)
qed

lemma find_update_first_same:
  "(\<And>x. P x \<Longrightarrow> P (f x)) \<Longrightarrow> find P (update_first P f xs) = map_option f (find P xs)"
  by (induction xs) auto

lemma find_update_first_other:
  "(\<And>x. P x \<Longrightarrow> \<not> Q x \<and> \<not> Q (f x)) \<Longrightarrow> find Q (update_first P f xs) = find Q xs"
  by (induction xs) auto

lemma find_append_single:
  "find P (xs @ [y]) = (case find P xs of None \<Rightarrow> (if P y then Some y else None) | Some x \<Rightarrow> Some x)"
  by (induction xs) auto

lemma filter_update_first:
  "(\<And>x. P x \<Longrightarrow> \<not> Q x \<and> \<not> Q (f x)) \<Longrightarrow> filter Q (update_first P f xs) = filter Q xs"
  by (induction xs) auto

lemma compute_result_key [simp]:
  "r_roll_no (compute_result ops s mm r) = r_roll_no r"
  "r_division (compute_result ops s mm r) = r_division r"
  by (simp_all add: compute_result_nf)

lemma result_of_compute [simp]: "result_of t (compute_result ops s mm r) = result_of t r"
  by (simp add: result_of_def)

lemma result_of_clear [simp]: "result_of t (r\<lparr>percentage := v\<rparr>) = result_of t r"
  by (simp add: result_of_def)

lemma result_of_new [simp]: "result_of s (new_result s)"
  by (simp add: result_of_def new_result_def)

lemma process_student_find_self:
  "find (result_of s) (process_student ops d s rs) = row_after ops d s (find (result_of s) rs)"
  by (cases "find (result_of s) rs")
     (simp_all add: process_student_def row_after_def find_update_first_same find_append_single)

lemma result_of_disjoint:
  "s_roll_no t \<noteq> s_roll_no s \<or> s_division t \<noteq> s_division s \<Longrightarrow> result_of t r \<Longrightarrow> \<not> result_of s r"
  by (auto simp: result_of_def)

lemma process_student_find_other:
  assumes "s_roll_no t \<noteq> s_roll_no s \<or> s_division t \<noteq> s_division s"
  shows "find (result_of s) (process_student ops d t rs) = find (result_of s) rs"
proof -
  have new: "\<not> result_of s (new_result t)"
    using assms by (auto simp: result_of_def new_result_def)
  have upd: "find (result_of s) (update_first (result_of t) f rs) = find (result_of s) rs"
    if "\<And>r. result_of s (f r) = result_of s r" for f
    using that result_of_disjoint[OF assms] by (intro find_update_first_other) auto
  show ?thesis
    by (cases "find (result_of t) rs")
       (simp_all add: process_student_def find_append_single new upd split: option.splits)
qed

lemma fold_process_find_other:
  "(\<And>t. t \<in> set ts \<Longrightarrow> s_roll_no t \<noteq> s_roll_no s \<or> s_division t \<noteq> s_division s) \<Longrightarrow>
   find (result_of s) (fold (process_student ops d) ts rs) = find (result_of s) rs"
  by (induction ts arbitrary: rs) (simp_all add: process_student_find_other)

lemma generate_row:
  assumes "filter (\<lambda>t. s_roll_no t = s_roll_no s) (division_students dv d) = [s]"
  shows "find (result_of s) (results (generate_results_for_division ops dv d))
         = row_after ops d s (find (result_of s) (results d))"
proof -
  from assms obtain us vs where
    split: "division_students dv d = us @ s # vs"
    and us: "\<forall>u\<in>set us. s_roll_no u \<noteq> s_roll_no s"
    and vs: "filter (\<lambda>t. s_roll_no t = s_roll_no s) vs = []"
    by (auto simp: filter_eq_Cons_iff)
  from vs have vs': "\<forall>v\<in>set vs. s_roll_no v \<noteq> s_roll_no s"
    by (simp add: filter_empty_conv)
  have "find (result_of s) (fold (process_student ops d) (us @ s # vs) (results d))
      = find (result_of s) (process_student ops d s (fold (process_student ops d) us (results d)))"
    using vs' by (simp add: fold_process_find_other)
  also have "\<dots> = row_after ops d s (find (result_of s) (fold (process_student ops d) us (results d)))"
    by (rule process_student_find_self)
  also have "\<dots> = row_after ops d s (find (result_of s) (results d))"
    using us by (simp add: fold_process_find_other)
  finally show ?thesis
    by (simp add: generate_results_for_division_def split)
qed

section \<open>The pass, seen from one student\<close>

lemma generate_row_complete:
  assumes "filter (\<lambda>t. s_roll_no t = s_roll_no s) (division_students dv d) = [s]"
    and "\<not> incomplete d s"
  shows "find (result_of s) (results (generate_results_for_division ops dv d))
         = Some (compute_result ops s (student_mark_map d s)
                   (case find (result_of s) (results d) of None \<Rightarrow> new_result s | Some r \<Rightarrow> r))"
  using generate_row[OF assms(1)] assms(2) by (simp add: row_after_def)

section \<open>The required subjects\<close>

lemma set_dedup_first [simp]: "set (dedup_first xs) = set xs"
  by (induction xs rule: dedup_first.induct) auto

lemma distinct_dedup_first [simp]: "distinct (dedup_first xs)"
  by (induction xs rule: dedup_first.induct) auto

lemma removeAll_filter: "removeAll c (filter P xs) = filter (\<lambda>x. P x \<and> x \<noteq> c) xs"
  by (induction xs) auto

lemma collect_required_eq:
  "collect_required subj allocs acc =
     acc @ dedup_first (filter (\<lambda>c. wanted c \<and> c \<notin> set acc) (allocated_codes subj allocs))"
proof (induction allocs arbitrary: acc)
  case Nil
  then show ?case by (simp add: allocated_codes_def map_filter_simps)
next
  case (Cons a allocs)
  show ?case
  proof (cases "lookup_code subj (a_subject_id a)")
    case None
    then show ?thesis
      using Cons.IH[of acc] by (simp add: allocated_codes_def map_filter_simps)
  next
    case (Some c)
    have step: "allocated_codes subj (a # allocs) = c # allocated_codes subj allocs"
      using Some by (simp add: allocated_codes_def map_filter_simps)
    show ?thesis
    proof (cases "wanted c \<and> c \<notin> set acc")
      case True
      have "(\<lambda>x. (wanted x \<and> x \<notin> set acc) \<and> x \<noteq> c) = (\<lambda>x. wanted x \<and> x \<notin> set (acc @ [c]))"
        by auto
      then show ?thesis
        using True Some Cons.IH[of "acc @ [c]"]
        by (simp add: step removeAll_filter wanted_def grading_only_def optional_codes_def)
    next
      case False
      then show ?thesis
        using Some Cons.IH[of acc]
        by (auto simp: step wanted_def grading_only_def optional_codes_def)
    qed
  qed
qed

lemma optional_required_chosen: "optional_required s = chosen_optionals s"
  by (simp add: optional_required_def chosen_optionals_def split: option.splits)

lemma distinct_base_required: "distinct (base_required subj allocs)"
  by (simp add: base_required_def collect_required_eq)

lemma same_set_same_length:
  assumes "distinct xs" "distinct ys" "set xs = set ys"
  shows "length xs = length ys"
  using assms by (metis distinct_card)

section \<open>Rows of other divisions\<close>

lemma process_student_other_division:
  assumes "s_division s = dv"
  shows "filter (\<lambda>r. r_division r \<noteq> dv) (process_student ops d s rs) = filter (\<lambda>r. r_division r \<noteq> dv) rs"
proof -
  have upd: "filter (\<lambda>r. r_division r \<noteq> dv) (update_first (result_of s) f rs)
      = filter (\<lambda>r. r_division r \<noteq> dv) rs"
    if "\<And>r. r_division (f r) = r_division r" for f
    using that assms by (intro filter_update_first) (auto simp: result_of_def)
  show ?thesis
    using assms
    by (cases "find (result_of s) rs") (simp_all add: process_student_def upd new_result_def)
qed

lemma fold_process_other_division:
  "(\<And>s. s \<in> set sts \<Longrightarrow> s_division s = dv) \<Longrightarrow>
   filter (\<lambda>r. r_division r \<noteq> dv) (fold (process_student ops d) sts rs) = filter (\<lambda>r. r_division r \<noteq> dv) rs"
  by (induction sts arbitrary: rs) (simp_all add: process_student_other_division)

section \<open>Running the pass twice\<close>

lemma keep_band [simp]: "keep w (keep v (keep w x)) = keep w (keep v x)"
  by (cases w; cases v) simp_all

lemma row_step_idem: "row_step ops d s (row_step ops d s r) = row_step ops d s r"
  by (simp add: row_step_def compute_result_nf)

lemma row_step_band: "row_step ops d s (row_step ops d t (row_step ops d s r)) = row_step ops d s (row_step ops d t r)"
  by (simp add: row_step_def compute_result_nf)

lemma result_of_row_step [simp]: "result_of t (row_step ops d s r) = result_of t r"
  by (simp add: row_step_def)

lemma result_of_cases:
  "(\<forall>r. result_of s r = result_of t r) \<or> (\<forall>r. \<not> (result_of s r \<and> result_of t r))"
  by (auto simp: result_of_def)

lemma update_first_idem:
  "(\<And>x. P (f x) = P x) \<Longrightarrow> (\<And>x. f (f x) = f x) \<Longrightarrow>
   update_first P f (update_first P f xs) = update_first P f xs"
  by (induction xs) auto

lemma upd_row_idem: "upd_row ops d s (upd_row ops d s rs) = upd_row ops d s rs"
  unfolding upd_row_def by (rule update_first_idem) (simp_all add: row_step_idem)

lemma update_first_band:
  assumes "\<And>x. P (f x) = P x" "\<And>x. P (g x) = P x" "\<And>x. Q (f x) = Q x" "\<And>x. Q (g x) = Q x"
    and "(\<forall>x. P x = Q x) \<or> (\<forall>x. \<not> (P x \<and> Q x))"
    and "\<And>x. f (f x) = f x" "\<And>x. f (g (f x)) = f (g x)"
  shows "update_first P f (update_first Q g (update_first P f xs)) = update_first P f (update_first Q g xs)"
proof (induction xs)
  case Nil
  then show ?case by simp
next
  case (Cons x xs)
  have idem: "update_first P f (update_first P f xs) = update_first P f xs"
    using assms(1,6) by (rule update_first_idem)
  from assms(5) show ?case
  proof
    assume "\<forall>x. P x = Q x"
    then show ?thesis
      using Cons assms(1-4,6,7) by auto
  next
    assume "\<forall>x. \<not> (P x \<and> Q x)"
    then show ?thesis
      using Cons idem assms(1-4,6,7) by auto
  qed
qed

lemma upd_row_band: "upd_row ops d s (upd_row ops d t (upd_row ops d s rs)) = upd_row ops d s (upd_row ops d t rs)"
  unfolding upd_row_def
proof (rule update_first_band)
  show "(\<forall>x. result_of s x = result_of t x) \<or> (\<forall>x. \<not> (result_of s x \<and> result_of t x))"
    by (rule result_of_cases)
qed (simp_all add: row_step_idem row_step_band)

lemma fold_upd_band:
  "upd_row ops d s (fold (upd_row ops d) ts (upd_row ops d s rs)) = upd_row ops d s (fold (upd_row ops d) ts rs)"
proof (induction ts arbitrary: rs)
  case Nil
  then show ?case by (simp add: upd_row_idem)
next
  case (Cons t ts)
  have "upd_row ops d s (fold (upd_row ops d) ts (upd_row ops d t (upd_row ops d s rs)))
      = upd_row ops d s (fold (upd_row ops d) ts (upd_row ops d s (upd_row ops d t (upd_row ops d s rs))))"
    by (simp add: Cons.IH)
  also have "\<dots> = upd_row ops d s (fold (upd_row ops d) ts (upd_row ops d s (upd_row ops d t rs)))"
    by (simp add: upd_row_band)
  also have "\<dots> = upd_row ops d s (fold (upd_row ops d) ts (upd_row ops d t rs))"
    by (simp add: Cons.IH)
  finally show ?case by simp
qed

lemma fold_upd_idem:
  "fold (upd_row ops d) sts (fold (upd_row ops d) sts rs) = fold (upd_row ops d) sts rs"
proof (induction sts arbitrary: rs rule: rev_induct)
  case Nil
  then show ?case by simp
next
  case (snoc s sts)
  have "fold (upd_row ops d) (sts @ [s]) (fold (upd_row ops d) (sts @ [s]) rs)
      = upd_row ops d s (fold (upd_row ops d) sts (upd_row ops d s (fold (upd_row ops d) sts rs)))"
    by simp
  also have "\<dots> = upd_row ops d s (fold (upd_row ops d) sts (fold (upd_row ops d) sts rs))"
    by (rule fold_upd_band)
  also have "\<dots> = upd_row ops d s (fold (upd_row ops d) sts rs)"
    by (simp add: snoc.IH)
  finally show ?case by simp
qed

lemma update_first_no_match: "find P xs = None \<Longrightarrow> update_first P f xs = xs"
  by (induction xs) (auto split: if_splits)

lemma update_first_append:
  "update_first P f (xs @ ys) =
     (if find P xs = None then xs @ update_first P f ys else update_first P f xs @ ys)"
  by (induction xs) auto

lemma row_step_fun:
  "row_step ops d s =
     (if incomplete d s then (\<lambda>r. r\<lparr>percentage := None\<rparr>)
      else compute_result ops s (student_mark_map d s))"
  by (rule ext) (simp add: row_step_def)

lemma process_student_split: "process_student ops d s rs = upd_row ops d s (add_row d s rs)"
  by (cases "find (result_of s) rs")
     (simp_all add: process_student_def upd_row_def add_row_def row_step_fun
        update_first_append update_first_no_match)

lemma find_upd_row [simp]: "(find (result_of t) (upd_row ops d s rs) = None) = (find (result_of t) rs = None)"
  by (induction rs) (auto simp: upd_row_def)

lemma row_step_new:
  "incomplete d s \<Longrightarrow> row_step ops d s (new_result t) = new_result t"
  by (simp add: row_step_def new_result_def)

lemma add_row_upd_row:
  assumes "has_row d s rs"
  shows "add_row d t (upd_row ops d s rs) = upd_row ops d s (add_row d t rs)"
proof (cases "\<not> incomplete d t \<and> find (result_of t) rs = None")
  case False
  then show ?thesis by (auto simp: add_row_def)
next
  case True
  show ?thesis
  proof (cases "find (result_of s) rs = None")
    case False
    then obtain y where "find (result_of s) rs = Some y"
      by auto
    then show ?thesis
      using True by (simp add: add_row_def) (simp add: upd_row_def update_first_append)
  next
    case none: True
    with assms have inc: "incomplete d s" by (simp add: has_row_def)
    have "update_first (result_of s) (row_step ops d s) [new_result t] = [new_result t]"
      using inc by (simp add: row_step_new)
    then show ?thesis
      using True none by (simp add: add_row_def) (simp add: upd_row_def update_first_append update_first_no_match)
  qed
qed

lemma has_row_add_row: "has_row d s rs \<Longrightarrow> has_row d s (add_row d t rs)"
  by (auto simp: has_row_def add_row_def find_append_single split: option.splits)

lemma has_row_upd_row: "has_row d s rs \<Longrightarrow> has_row d s (upd_row ops d t rs)"
  by (simp add: has_row_def)

lemma has_row_add_self: "has_row d s (add_row d s rs)"
  by (auto simp: has_row_def add_row_def find_append_single split: option.splits)

lemma fold_add_row_upd_row:
  "has_row d s rs \<Longrightarrow> fold (add_row d) ts (upd_row ops d s rs) = upd_row ops d s (fold (add_row d) ts rs)"
  by (induction ts arbitrary: rs) (simp_all add: add_row_upd_row has_row_add_row)

lemma fold_process_split:
  "fold (process_student ops d) sts rs = fold (upd_row ops d) sts (fold (add_row d) sts rs)"
proof (induction sts arbitrary: rs)
  case Nil
  then show ?case by simp
next
  case (Cons s sts)
  have "fold (process_student ops d) (s # sts) rs
      = fold (upd_row ops d) sts (fold (add_row d) sts (upd_row ops d s (add_row d s rs)))"
    by (simp add: Cons.IH process_student_split)
  also have "\<dots> = fold (upd_row ops d) sts (upd_row ops d s (fold (add_row d) sts (add_row d s rs)))"
    by (simp add: fold_add_row_upd_row has_row_add_self)
  finally show ?case by simp
qed

lemma add_row_has_row: "\<not> incomplete d s \<Longrightarrow> has_row d s rs \<Longrightarrow> add_row d s rs = rs"
  by (simp add: add_row_def has_row_def)

lemma add_row_incomplete: "incomplete d s \<Longrightarrow> add_row d s rs = rs"
  by (simp add: add_row_def)

lemma fold_add_row_saturated:
  "(\<And>s. s \<in> set ts \<Longrightarrow> has_row d s rs) \<Longrightarrow> fold (add_row d) ts rs = rs"
proof (induction ts arbitrary: rs)
  case Nil
  then show ?case by simp
next
  case (Cons t ts)
  have "add_row d t rs = rs"
    using Cons.prems[of t] by (cases "incomplete d t") (simp_all add: add_row_has_row add_row_incomplete)
  then show ?case
    using Cons by simp
qed

lemma has_row_fold_add: "has_row d s rs \<Longrightarrow> has_row d s (fold (add_row d) ts rs)"
  by (induction ts arbitrary: rs) (simp_all add: has_row_add_row)

lemma has_row_fold_upd: "has_row d s rs \<Longrightarrow> has_row d s (fold (upd_row ops d) ts rs)"
  by (induction ts arbitrary: rs) (simp_all add: has_row_upd_row)

lemma fold_add_row_all: "s \<in> set ts \<Longrightarrow> has_row d s (fold (add_row d) ts rs)"
proof (induction ts arbitrary: rs)
  case Nil
  then show ?case by simp
next
  case (Cons t ts)
  then show ?case
    by (auto simp: has_row_fold_add has_row_add_self)
qed

lemma fold_process_idem:
  "fold (process_student ops d) sts (fold (process_student ops d) sts rs) = fold (process_student ops d) sts rs"
proof -
  let ?A = "fold (add_row d) sts" and ?U = "fold (upd_row ops d) sts"
  have sat: "has_row d s (?U (?A rs))" if "s \<in> set sts" for s
    using that by (simp add: has_row_fold_upd fold_add_row_all)
  have "fold (process_student ops d) sts (fold (process_student ops d) sts rs) = ?U (?A (?U (?A rs)))"
    by (simp add: fold_process_split)
  also have "?A (?U (?A rs)) = ?U (?A rs)"
    by (rule fold_add_row_saturated) (rule sat)
  also have "?U (?U (?A rs)) = ?U (?A rs)"
    by (rule fold_upd_idem)
  finally show ?thesis
    by (simp add: fold_process_split)
qed

lemma student_mark_map_results_irrelevant:
  "student_mark_map (d\<lparr>results := x\<rparr>) s = student_mark_map d s"
  by (simp add: student_mark_map_def student_marks_def)

lemma incomplete_results_irrelevant: "incomplete (d\<lparr>results := x\<rparr>) s = incomplete d s"
  by (simp add: incomplete_def student_mark_map_results_irrelevant student_required_def)

lemma process_student_results_irrelevant:
  "process_student ops (d\<lparr>results := x\<rparr>) = process_student ops d"
  by (rule ext)+
     (simp add: process_student_def incomplete_results_irrelevant
        student_mark_map_results_irrelevant cong: option.case_cong)

section \<open>Unfolding the model on concrete data\<close>

lemmas sample_defs = db_complete_def db_incomplete_def db_fifth_def db_evs_only_def asha_def ravi_def
  sample_mark_def sample_alloc_def sample_subjects_def

lemmas service_defs = generate_results_for_division_def division_students_def process_student_def
  incomplete_def student_mark_map_def student_marks_def subjects_map_def build_mark_map_def
  lookup_code_def student_required_def required_codes_def base_required_def optional_required_def
  grading_only_def optional_codes_def missing_required_def unsatisfied_def compute_result_def
  core_subjects_def core_step_def optional_group_1_def optional_group_2_def final_calc_def
  evs_grading_def pe_grading_def new_result_def annual_or_zero_def grace_or_zero_def
  grace_fields_def sum_present_def letter_grade_def result_of_def Let_def

section \<open>The mark handlers\<close>

lemma enter_marks_outcome: "enter_outcome gmax data d (enter_marks ops gmax uid data d)"
  by (simp add: enter_marks_def enter_outcome_def Let_def not_less split: option.split)

lemmas route_defs = enter_marks_def update_marks_def delete_mark_def check_teacher_allocation_def
  get_or_zero_def next_mark_id_def try_regenerate_def service_def

lemma enter_marks_eval:
  "enter_marks ops 15 7 entry_request db_entry = (Status 201, db_entry\<lparr>marks := [entered_mark ops]\<rparr>)"
  by (simp add: route_defs db_entry_def entry_request_def entered_mark_def sample_defs Let_def)

lemma delete_mark_marks:
  "set (marks (snd (delete_mark (service ops) mid uid ut d))) \<subseteq> set (marks d)"
proof (cases "find (\<lambda>m. mark_id m = mid) (marks d)")
  case None
  then show ?thesis by (simp add: delete_mark_def)
next
  case (Some mk)
  have "set (remove1 mk (marks d)) \<subseteq> set (marks d)"
    by (rule set_remove1_subset)
  then show ?thesis
    using Some
    by (simp add: delete_mark_def try_regenerate_def service_def generate_results_for_division_def)
qed

text \<open>
  The recomputation at the end of the update and of the delete handler is not fatal:
  the response does not depend on it, and when it raises the marks are as committed.
\<close>

lemma update_marks_nonfatal:
  "fst (update_marks ops regen gmax mid uid data d) = fst (update_marks ops (service ops) gmax mid uid data d)
   \<and> marks (snd (update_marks ops (\<lambda>dv d. None) gmax mid uid data d))
       = marks (snd (update_marks ops (service ops) gmax mid uid data d))"
proof (cases "find (\<lambda>m. mark_id m = mid) (marks d)")
  case None
  then show ?thesis by (simp add: update_marks_def)
next
  case mk: (Some mk)
  show ?thesis
  proof (cases "find (\<lambda>s. subject_id s = m_subject_id mk) (subjects d)")
    case None
    then show ?thesis using mk by (simp add: update_marks_def)
  next
    case subj: (Some subj)
    show ?thesis
    proof (cases "check_teacher_allocation d uid (subject_id subj) (m_division mk)")
      case None
      then show ?thesis using mk subj by (simp add: update_marks_def)
    next
      case alloc: (Some alloc)
      show ?thesis
      proof (cases "case u_grace data of Some g \<Rightarrow> Some g | None \<Rightarrow> grace mk")
        case None
        then show ?thesis
          using mk subj alloc by (simp add: update_marks_def Let_def)
      next
        case (Some gr)
        then show ?thesis
          using mk subj alloc
          by (simp add: update_marks_def Let_def try_regenerate_def service_def
              generate_results_for_division_def)
      qed
    qed
  qed
qed

lemma delete_mark_nonfatal:
  "fst (delete_mark regen mid uid ut d) = fst (delete_mark (service ops) mid uid ut d)
   \<and> marks (snd (delete_mark (\<lambda>dv d. None) mid uid ut d))
       = marks (snd (delete_mark (service ops) mid uid ut d))"
  by (simp add: delete_mark_def try_regenerate_def service_def generate_results_for_division_def
      split: option.split)

section \<open>Binary64 arithmetic on examples\<close>

text \<open>
  The mean of the annual marks 60.7, 80, 80, 80 rounds to 75.17, the sum of 0.1 and 0.2
  is 0.30000000000000004, and half of 140.05 rounds to 70.03.
\<close>

lemma double_ops_examples:
  "fround2 double_ops (fdiv double_ops
      (foldl (fadd double_ops) 0 [to_double (607 / 10), 80, 80, 80]) 4) = to_double (7517 / 100)"
  "to_double (7517 / 100) = 5289618499835003 / 70368744177664"
  "fsum double_ops [to_double (1 / 10), to_double (2 / 10)] = 1351079888211149 / 4503599627370496"
  "fround2 double_ops (fdiv double_ops (to_double (14005 / 100)) 2) = to_double (7003 / 100)"
  "fsum double_ops [2, 3, 4, 0, 1] = 10"
  by code_simp+

section \<open>The claims\<close>

subsection \<open>C2: a student with a missing required annual mark\<close>

text \<open>
  Claim C2. Let \<open>s\<close> be a student of the division, the only one there with its roll
  number, who lacks the annual mark of a required subject (no mark, or a null annual).
  After \<open>generate_results_for_division\<close> the row that the service finds for \<open>s\<close> is
  the row it found before with the percentage set to null and every other field as it
  was, whatever the percentage was before; when there was no row, there is none after.
\<close>

theorem incomplete_clears_percentage:
  assumes "filter (\<lambda>t. s_roll_no t = s_roll_no s) (division_students dv d) = [s]"
    and "incomplete d s"
  shows "find (result_of s) (results (generate_results_for_division ops dv d))
         = map_option (\<lambda>r. r\<lparr>percentage := None\<rparr>) (find (result_of s) (results d))"
  using generate_row[OF assms(1)] assms(2) by (simp add: row_after_def)

text \<open>
  Witness for C2: the student of the specification's second example, MATHS annual null,
  with a row whose percentage is 50 from an earlier pass. The pass leaves the row with a
  null percentage.
\<close>

theorem incomplete_clears_percentage_witness:
  "filter (\<lambda>t. s_roll_no t = s_roll_no asha) (division_students ''A'' db_incomplete) = [asha]
   \<and> incomplete db_incomplete asha
   \<and> find (result_of asha) (results db_incomplete) = Some ((new_result asha)\<lparr>percentage := Some 50\<rparr>)
   \<and> (\<forall>ops. find (result_of asha) (results (generate_results_for_division ops ''A'' db_incomplete))
       = Some (new_result asha))"
proof -
  have u: "filter (\<lambda>t. s_roll_no t = s_roll_no asha) (division_students ''A'' db_incomplete) = [asha]"
    by (simp add: sample_defs division_students_def)
  have i: "incomplete db_incomplete asha"
    by (simp add: sample_defs service_defs)
  have f: "find (result_of asha) (results db_incomplete) = Some ((new_result asha)\<lparr>percentage := Some 50\<rparr>)"
    by (simp add: db_incomplete_def result_of_def new_result_def)
  have n: "(new_result asha)\<lparr>percentage := None\<rparr> = new_result asha"
    by (simp add: new_result_def)
  show ?thesis
    using incomplete_clears_percentage[OF u i] u i f n by simp
qed

subsection \<open>C6: the grades at the boundaries\<close>

text \<open>
  Claim C6, as amended. For a student whose result is computed, an EVS (respectively PE)
  mark with annual 74 gives the grade A, 75 gives A+, 49 gives C and 50 gives B.
\<close>

theorem grade_boundaries:
  "evs_grade (compute_result ops s (mm(''EVS'' \<mapsto> m\<lparr>annual := Some 74\<rparr>)) r) = Some ''A''
   \<and> evs_grade (compute_result ops s (mm(''EVS'' \<mapsto> m\<lparr>annual := Some 75\<rparr>)) r) = Some ''A+''
   \<and> evs_grade (compute_result ops s (mm(''EVS'' \<mapsto> m\<lparr>annual := Some 49\<rparr>)) r) = Some ''C''
   \<and> evs_grade (compute_result ops s (mm(''EVS'' \<mapsto> m\<lparr>annual := Some 50\<rparr>)) r) = Some ''B''
   \<and> pe_grade (compute_result ops s (mm(''PE'' \<mapsto> m\<lparr>annual := Some 74\<rparr>)) r) = Some ''A''
   \<and> pe_grade (compute_result ops s (mm(''PE'' \<mapsto> m\<lparr>annual := Some 75\<rparr>)) r) = Some ''A+''
   \<and> pe_grade (compute_result ops s (mm(''PE'' \<mapsto> m\<lparr>annual := Some 49\<rparr>)) r) = Some ''C''
   \<and> pe_grade (compute_result ops s (mm(''PE'' \<mapsto> m\<lparr>annual := Some 50\<rparr>)) r) = Some ''B''"
  by (simp add: compute_result_nf wr_grade_def letter_grade_def)

text \<open>
  Counterexample to C6 as stated: in the specification's example with an EVS annual of 74
  and a PE annual of 49, the pass stores the grades A and C, not C and F.
\<close>

theorem grade_boundaries_counterexample:
  "map (\<lambda>r. (evs_grade r, pe_grade r)) (results (generate_results_for_division double_ops ''A'' db_complete))
     = [(Some ''A'', Some ''C'')]
   \<and> map (\<lambda>r. (evs_grade r, pe_grade r)) (results (generate_results_for_division double_ops ''A'' db_complete))
     \<noteq> [(Some ''C'', Some ''F'')]"
  by (simp add: sample_defs service_defs)

subsection \<open>C1: the percentage\<close>

text \<open>
  Claim C1, as amended. Let \<open>s\<close> be a student of the division, the only one there with
  its roll number, all of whose required subjects have a mark with a non-null annual.
  After \<open>generate_results_for_division\<close> the percentage of the row of \<open>s\<close> is
  \<open>round(S / n, 2)\<close> in the arithmetic of Python floats. Here \<open>S\<close> is the sum of the
  annual values of the subjects that are scored, added one after the other to 0.0 in
  the order ENG, ECO, BK, OC, optional subject, second optional subject, and \<open>n > 0\<close> is
  their number; the subjects scored are those of ENG, ECO, BK, OC for which the student
  has a mark (a null annual counting as 0.0), then the chosen optional subjects. When
  the core list derived for the division consists of exactly the codes among ENG, ECO,
  BK, OC for which the student has a mark, the subjects scored are the required
  subjects.
\<close>

theorem percentage_of_complete_student:
  assumes "filter (\<lambda>t. s_roll_no t = s_roll_no s) (division_students dv d) = [s]"
    and "\<not> incomplete d s"
    and "scored_codes s (student_mark_map d s) \<noteq> []"
  shows "\<exists>r. find (result_of s) (results (generate_results_for_division ops dv d)) = Some r
     \<and> percentage r =
         Some (fround2 ops (fdiv ops
           (foldl (fadd ops) 0
              (map (\<lambda>c. annual_or_zero (student_mark_map d s c))
                 (scored_codes s (student_mark_map d s))))
           (of_nat (length (scored_codes s (student_mark_map d s))))))
     \<and> (set (base_required (subjects_map (subjects d))
                (filter (\<lambda>a. a_division a = s_division s) (allocations d)))
          = set (filter (\<lambda>c. student_mark_map d s c \<noteq> None) core_codes)
        \<longrightarrow> set (student_required d s) = set (scored_codes s (student_mark_map d s))
            \<and> length (student_required d s) = length (scored_codes s (student_mark_map d s)))"
proof -
  let ?mm = "student_mark_map d s"
  let ?base = "base_required (subjects_map (subjects d))
                (filter (\<lambda>a. a_division a = s_division s) (allocations d))"
  let ?f = "\<lambda>c. annual_or_zero (?mm c)"
  let ?r = "compute_result ops s ?mm
              (case find (result_of s) (results d) of None \<Rightarrow> new_result s | Some r \<Rightarrow> r)"
  have p: "percentage ?r =
      Some (fround2 ops (fdiv ops (foldl (fadd ops) 0 (map ?f (scored_codes s ?mm)))
              (of_nat (length (scored_codes s ?mm)))))"
    using assms(3) by (simp add: compute_result_nf wr_percentage_def scored_sum_def)
  have same: "set (student_required d s) = set (scored_codes s ?mm)
      \<and> length (student_required d s) = length (scored_codes s ?mm)"
    if eq: "set ?base = set (filter (\<lambda>c. ?mm c \<noteq> None) core_codes)"
  proof -
    have "distinct (filter (\<lambda>c. ?mm c \<noteq> None) core_codes)"
      by (simp add: core_codes_def)
    then have "length ?base = length (filter (\<lambda>c. ?mm c \<noteq> None) core_codes)"
      using distinct_base_required eq by (intro same_set_same_length) auto
    then show ?thesis
      using eq by (simp add: student_required_def required_codes_def scored_codes_def)
  qed
  show ?thesis
    unfolding generate_row_complete[OF assms(1,2)]
    using p same by simp
qed

text \<open>
  Witness for C1: the first example of the specification, annual marks 80, 70, 60, 90,
  75 and 65; the percentage is the double nearest to 73.33.
\<close>

theorem percentage_of_complete_student_witness:
  "filter (\<lambda>t. s_roll_no t = s_roll_no asha) (division_students ''A'' db_complete) = [asha]
   \<and> \<not> incomplete db_complete asha
   \<and> scored_codes asha (student_mark_map db_complete asha) = [''ENG'', ''ECO'', ''BK'', ''OC'', ''HINDI'', ''MATHS'']
   \<and> student_required db_complete asha = [''ENG'', ''ECO'', ''BK'', ''OC'', ''HINDI'', ''MATHS'']
   \<and> set (base_required (subjects_map (subjects db_complete))
             (filter (\<lambda>a. a_division a = s_division asha) (allocations db_complete)))
       = set (filter (\<lambda>c. student_mark_map db_complete asha c \<noteq> None) core_codes)
   \<and> (\<exists>r. find (result_of asha) (results (generate_results_for_division double_ops ''A'' db_complete)) = Some r
        \<and> percentage r =
            Some (fround2 double_ops (fdiv double_ops
                    (foldl (fadd double_ops) 0 [80, 70, 60, 90, 75, 65]) 6))
        \<and> percentage r = Some (to_double (7333 / 100)))"
proof -
  have u: "filter (\<lambda>t. s_roll_no t = s_roll_no asha) (division_students ''A'' db_complete) = [asha]"
    by (simp add: sample_defs division_students_def)
  have c: "\<not> incomplete db_complete asha"
    by (simp add: sample_defs service_defs)
  have sc: "scored_codes asha (student_mark_map db_complete asha)
      = [''ENG'', ''ECO'', ''BK'', ''OC'', ''HINDI'', ''MATHS'']"
    by (simp add: sample_defs service_defs scored_codes_def core_codes_def)
  have rq: "student_required db_complete asha = [''ENG'', ''ECO'', ''BK'', ''OC'', ''HINDI'', ''MATHS'']"
    by (simp add: sample_defs service_defs)
  have ne: "scored_codes asha (student_mark_map db_complete asha) \<noteq> []"
    by (simp add: sc)
  have an: "map (\<lambda>c. annual_or_zero (student_mark_map db_complete asha c))
              [''ENG'', ''ECO'', ''BK'', ''OC'', ''HINDI'', ''MATHS''] = [80, 70, 60, 90, 75, 65]"
    by (simp add: sample_defs service_defs)
  have rd: "fround2 double_ops (fdiv double_ops (foldl (fadd double_ops) 0 [80, 70, 60, 90, 75, 65]) 6)
      = to_double (7333 / 100)"
    by code_simp
  have bs: "set (base_required (subjects_map (subjects db_complete))
             (filter (\<lambda>a. a_division a = s_division asha) (allocations db_complete)))
       = set (filter (\<lambda>c. student_mark_map db_complete asha c \<noteq> None) core_codes)"
    by (simp add: sample_defs service_defs core_codes_def)
  from percentage_of_complete_student[OF u c ne, of double_ops] obtain r where
    r: "find (result_of asha) (results (generate_results_for_division double_ops ''A'' db_complete)) = Some r"
    and p: "percentage r =
         Some (fround2 double_ops (fdiv double_ops
           (foldl (fadd double_ops) 0
              (map (\<lambda>c. annual_or_zero (student_mark_map db_complete asha c))
                 (scored_codes asha (student_mark_map db_complete asha))))
           (of_nat (length (scored_codes asha (student_mark_map db_complete asha))))))"
    by blast
  have p': "percentage r =
      Some (fround2 double_ops (fdiv double_ops (foldl (fadd double_ops) 0 [80, 70, 60, 90, 75, 65]) 6))"
    using p by (simp only: sc an) simp
  show ?thesis
    using u c sc rq bs r p' rd by simp
qed

text \<open>
  Counterexample to C1 as stated: a division in which ACC is allocated besides the four
  core subjects. The student has all five annual marks, 80 four times and 30 for ACC, so
  the rounded mean over the required subjects is 70; the pass stores 80, the mean over
  the four core subjects.
\<close>

theorem percentage_counterexample:
  "filter (\<lambda>t. s_roll_no t = s_roll_no ravi) (division_students ''A'' db_fifth) = [ravi]
   \<and> \<not> incomplete db_fifth ravi
   \<and> student_required db_fifth ravi = [''ENG'', ''ECO'', ''BK'', ''OC'', ''ACC'']
   \<and> map (\<lambda>c. map_option annual (student_mark_map db_fifth ravi c)) (student_required db_fifth ravi)
       = [Some (Some 80), Some (Some 80), Some (Some 80), Some (Some 80), Some (Some 30)]
   \<and> fround2 double_ops (fdiv double_ops (foldl (fadd double_ops) 0 [80, 80, 80, 80, 30]) 5) = 70
   \<and> map percentage (results (generate_results_for_division double_ops ''A'' db_fifth)) = [Some 80]"
proof (intro conjI)
  show "filter (\<lambda>t. s_roll_no t = s_roll_no ravi) (division_students ''A'' db_fifth) = [ravi]"
    by (simp add: sample_defs division_students_def)
  show "\<not> incomplete db_fifth ravi"
    by (simp add: sample_defs service_defs)
  show "student_required db_fifth ravi = [''ENG'', ''ECO'', ''BK'', ''OC'', ''ACC'']"
    by (simp add: sample_defs service_defs)
  show "map (\<lambda>c. map_option annual (student_mark_map db_fifth ravi c)) (student_required db_fifth ravi)
       = [Some (Some 80), Some (Some 80), Some (Some 80), Some (Some 80), Some (Some 30)]"
    by (simp add: sample_defs service_defs)
  show "fround2 double_ops (fdiv double_ops (foldl (fadd double_ops) 0 [80, 80, 80, 80, 30]) 5) = 70"
    by code_simp
  have e: "fround2 double_ops (fdiv double_ops
      (fadd double_ops (fadd double_ops (fadd double_ops (fadd double_ops 0 80) 80) 80) 80) 4) = 80"
    by code_simp
  show "map percentage (results (generate_results_for_division double_ops ''A'' db_fifth)) = [Some 80]"
    by (simp add: sample_defs service_defs e)
qed

subsection \<open>C3: the required subjects\<close>

text \<open>
  Claim C3, as amended. The list of required codes that the service computes for a
  student is: the allocations of the student's division mapped to their subject codes
  (an allocation whose subject has no code is skipped), the codes EVS, PE and HINDI, IT,
  MATHS, SP discarded, duplicates removed with the first occurrence kept; the fixed list
  ENG, ECO, BK, OC instead when the division has no allocation at all; then the student's
  optional_subject when it is HINDI or IT, and optional_subject_2 when it is MATHS or SP.
\<close>

theorem required_codes_amended:
  "student_required d s =
     amended_required_codes (subjects_map (subjects d))
       (filter (\<lambda>a. a_division a = s_division s) (allocations d)) s"
  by (simp add: student_required_def required_codes_def base_required_def amended_required_codes_def
      derived_core_def collect_required_eq optional_required_chosen wanted_def)

text \<open>
  Counterexample to C3 as stated: a division whose allocations are EVS and HINDI only.
  The derived list is empty, the service requires nothing of a student without optional
  subjects, and the list in the words of the specification is the fallback.
\<close>

theorem required_codes_counterexample:
  "student_required db_evs_only ravi = []
   \<and> spec_required_codes (subjects_map (subjects db_evs_only))
        (filter (\<lambda>a. a_division a = s_division ravi) (allocations db_evs_only)) ravi
      = [''ENG'', ''ECO'', ''BK'', ''OC'']"
  by (simp add: db_evs_only_def sample_defs service_defs spec_required_codes_def derived_core_def
      allocated_codes_def map_filter_simps chosen_optionals_def)

subsection \<open>C4: the total of the grace marks\<close>

text \<open>
  Claim C4. Let \<open>s\<close> be a student of the division, the only one there with its roll
  number, whose result is computed. The total_grace of the row of \<open>s\<close> is the sum, as
  Python's \<^verbatim>\<open>sum\<close> computes it on floats, of its fields eng_grace, hindi_grace, it_grace,
  maths_grace, sp_grace, bk_grace and oc_grace in this order, a null field adding
  nothing to the sum, as a 0 would. The field eco_grace is not among them, and the grace
  of the ECO mark, whatever its value, does not change the total_grace that the
  computation stores.
\<close>

theorem total_grace_sum:
  assumes "filter (\<lambda>t. s_roll_no t = s_roll_no s) (division_students dv d) = [s]"
    and "\<not> incomplete d s"
  shows "(\<exists>r. find (result_of s) (results (generate_results_for_division ops dv d)) = Some r
     \<and> total_grace r =
         Some (fsum ops (present
           [eng_grace r, hindi_grace r, it_grace r, maths_grace r, sp_grace r, bk_grace r, oc_grace r])))
     \<and> total_grace (compute_result ops s (mm(''ECO'' \<mapsto> m\<lparr>grace := g\<rparr>)) r0)
         = total_grace (compute_result ops s (mm(''ECO'' \<mapsto> m)) r0)"
proof -
  have 1: "\<exists>r. find (result_of s) (results (generate_results_for_division ops dv d)) = Some r
     \<and> total_grace r =
         Some (fsum ops (present
           [eng_grace r, hindi_grace r, it_grace r, maths_grace r, sp_grace r, bk_grace r, oc_grace r]))"
    unfolding generate_row_complete[OF assms]
    by (simp add: compute_result_nf sum_present_def)
  have 2: "total_grace (compute_result ops s (mm(''ECO'' \<mapsto> m\<lparr>grace := g\<rparr>)) r0)
         = total_grace (compute_result ops s (mm(''ECO'' \<mapsto> m)) r0)"
    by (simp add: compute_result_nf wr_grace_def wr_opt_grace_def grace_or_zero_def)
  from 1 2 show ?thesis by blast
qed

text \<open>
  Witness for C4: in the example the graces of the marks are ENG 2, ECO 5, BK null, OC 1,
  HINDI 3 and MATHS 4. The row has eco_grace 5, the seven fields are 2, 3, null, 4,
  null, 0, 1, and total_grace is the sum of 2, 3, 4, 0 and 1 (10 in binary64, see
  \<open>double_ops_examples\<close>).
\<close>

theorem total_grace_sum_witness:
  "filter (\<lambda>t. s_roll_no t = s_roll_no asha) (division_students ''A'' db_complete) = [asha]
   \<and> \<not> incomplete db_complete asha
   \<and> (\<forall>ops. \<exists>r. find (result_of asha) (results (generate_results_for_division ops ''A'' db_complete)) = Some r
        \<and> eco_grace r = Some 5
        \<and> [eng_grace r, hindi_grace r, it_grace r, maths_grace r, sp_grace r, bk_grace r, oc_grace r]
            = [Some 2, Some 3, None, Some 4, None, Some 0, Some 1]
        \<and> total_grace r = Some (fsum ops [2, 3, 4, 0, 1]))"
proof -
  have u: "filter (\<lambda>t. s_roll_no t = s_roll_no asha) (division_students ''A'' db_complete) = [asha]"
    by (simp add: sample_defs division_students_def)
  have c: "\<not> incomplete db_complete asha"
    by (simp add: sample_defs service_defs)
  have "\<exists>r. find (result_of asha) (results (generate_results_for_division ops ''A'' db_complete)) = Some r
        \<and> eco_grace r = Some 5
        \<and> [eng_grace r, hindi_grace r, it_grace r, maths_grace r, sp_grace r, bk_grace r, oc_grace r]
            = [Some 2, Some 3, None, Some 4, None, Some 0, Some 1]
        \<and> total_grace r = Some (fsum ops [2, 3, 4, 0, 1])" for ops
  proof -
    let ?rs = "results (generate_results_for_division ops ''A'' db_complete)"
    have v: "map (\<lambda>r. (eco_grace r,
                 [eng_grace r, hindi_grace r, it_grace r, maths_grace r, sp_grace r, bk_grace r, oc_grace r])) ?rs
       = [(Some 5, [Some 2, Some 3, None, Some 4, None, Some 0, Some 1])]"
      by (simp add: sample_defs service_defs)
    from total_grace_sum[OF u c, of ops] obtain r where
      r: "find (result_of asha) ?rs = Some r"
      and t: "total_grace r = Some (fsum ops (present
           [eng_grace r, hindi_grace r, it_grace r, maths_grace r, sp_grace r, bk_grace r, oc_grace r]))"
      by blast
    from v obtain x where x: "?rs = [x]"
      by (cases ?rs) auto
    with r have "r = x"
      by (simp split: if_splits)
    with v x have g: "eco_grace r = Some 5"
      "[eng_grace r, hindi_grace r, it_grace r, maths_grace r, sp_grace r, bk_grace r, oc_grace r]
         = [Some 2, Some 3, None, Some 4, None, Some 0, Some 1]"
      by simp_all
    from t have "total_grace r = Some (fsum ops [2, 3, 4, 0, 1])"
      by (simp only: g present.simps)
    with r g show ?thesis by blast
  qed
  with u c show ?thesis by blast
qed

subsection \<open>C5: the grades of EVS and PE\<close>

text \<open>
  Claim C5, as amended. Let \<open>s\<close> be a student of the division, the only one there with
  its roll number, whose result is computed (no required annual mark is missing). When
  \<open>s\<close> has an EVS (respectively PE) mark with a non-null annual \<open>a\<close>, the row of \<open>s\<close>
  has as evs_grade (respectively pe_grade) A+ if \<open>a \<ge> 75\<close>, else A if \<open>a \<ge> 60\<close>, else
  B if \<open>a \<ge> 50\<close>, else C if \<open>a \<ge> 35\<close>, else F. Without such a mark the field is not
  written: it has the value it had, null in a new row.
\<close>

theorem grades_of_complete_student:
  assumes "filter (\<lambda>t. s_roll_no t = s_roll_no s) (division_students dv d) = [s]"
    and "\<not> incomplete d s"
  shows "\<exists>r. find (result_of s) (results (generate_results_for_division ops dv d)) = Some r
     \<and> evs_grade r =
         (case student_mark_map d s ''EVS'' of
            None \<Rightarrow> (case find (result_of s) (results d) of None \<Rightarrow> None | Some r0 \<Rightarrow> evs_grade r0)
          | Some m \<Rightarrow>
             (case annual m of
                None \<Rightarrow> (case find (result_of s) (results d) of None \<Rightarrow> None | Some r0 \<Rightarrow> evs_grade r0)
              | Some a \<Rightarrow> Some (if a \<ge> 75 then ''A+'' else if a \<ge> 60 then ''A''
                                else if a \<ge> 50 then ''B'' else if a \<ge> 35 then ''C'' else ''F'')))
     \<and> pe_grade r =
         (case student_mark_map d s ''PE'' of
            None \<Rightarrow> (case find (result_of s) (results d) of None \<Rightarrow> None | Some r0 \<Rightarrow> pe_grade r0)
          | Some m \<Rightarrow>
             (case annual m of
                None \<Rightarrow> (case find (result_of s) (results d) of None \<Rightarrow> None | Some r0 \<Rightarrow> pe_grade r0)
              | Some a \<Rightarrow> Some (if a \<ge> 75 then ''A+'' else if a \<ge> 60 then ''A''
                                else if a \<ge> 50 then ''B'' else if a \<ge> 35 then ''C'' else ''F'')))"
  unfolding generate_row_complete[OF assms]
  by (simp add: compute_result_nf wr_grade_def letter_grade_def new_result_def split: option.splits)

text \<open>Witness for C5: the example with an EVS annual of 74 and a PE annual of 49.\<close>

theorem grades_of_complete_student_witness:
  "filter (\<lambda>t. s_roll_no t = s_roll_no asha) (division_students ''A'' db_complete) = [asha]
   \<and> \<not> incomplete db_complete asha
   \<and> map_option annual (student_mark_map db_complete asha ''EVS'') = Some (Some 74)
   \<and> map_option annual (student_mark_map db_complete asha ''PE'') = Some (Some 49)
   \<and> (\<exists>r. find (result_of asha) (results (generate_results_for_division double_ops ''A'' db_complete)) = Some r
        \<and> evs_grade r = Some ''A'' \<and> pe_grade r = Some ''C'')"
proof -
  have u: "filter (\<lambda>t. s_roll_no t = s_roll_no asha) (division_students ''A'' db_complete) = [asha]"
    by (simp add: sample_defs division_students_def)
  have c: "\<not> incomplete db_complete asha"
    by (simp add: sample_defs service_defs)
  have e: "map_option annual (student_mark_map db_complete asha ''EVS'') = Some (Some 74)"
    by (simp add: sample_defs service_defs)
  have p: "map_option annual (student_mark_map db_complete asha ''PE'') = Some (Some 49)"
    by (simp add: sample_defs service_defs)
  from grades_of_complete_student[OF u c, of double_ops] e p show ?thesis
    using u c by (auto split: option.splits)
qed

text \<open>
  Counterexample to C5 as stated: the student whose MATHS annual is null has an EVS mark
  with annual 74, and the pass leaves the evs_grade of the row null.
\<close>

theorem grades_counterexample:
  "asha \<in> set (division_students ''A'' db_incomplete)
   \<and> map_option annual (student_mark_map db_incomplete asha ''EVS'') = Some (Some 74)
   \<and> map evs_grade (results (generate_results_for_division double_ops ''A'' db_incomplete)) = [None]
   \<and> map evs_grade (results (generate_results_for_division double_ops ''A'' db_incomplete)) \<noteq> [Some ''A'']"
  by (simp add: sample_defs service_defs)

subsection \<open>C8: what the pass leaves alone\<close>

text \<open>
  Claim C8. \<open>generate_results_for_division\<close> for a division changes no Student,
  Subject, TeacherSubjectAllocation or Mark record, and the Result rows of the other
  divisions are after the pass what they were before: none is modified, added or removed.
  Every row it creates or updates is thus a row of the given division.
\<close>

theorem other_tables_and_divisions_untouched:
  "students (generate_results_for_division ops dv d) = students d
   \<and> subjects (generate_results_for_division ops dv d) = subjects d
   \<and> allocations (generate_results_for_division ops dv d) = allocations d
   \<and> marks (generate_results_for_division ops dv d) = marks d
   \<and> filter (\<lambda>r. r_division r \<noteq> dv) (results (generate_results_for_division ops dv d))
       = filter (\<lambda>r. r_division r \<noteq> dv) (results d)"
proof -
  have "filter (\<lambda>r. r_division r \<noteq> dv) (fold (process_student ops d) (division_students dv d) (results d))
      = filter (\<lambda>r. r_division r \<noteq> dv) (results d)"
    by (rule fold_process_other_division) (simp add: division_students_def)
  then show ?thesis
    by (simp add: generate_results_for_division_def)
qed

subsection \<open>C7: idempotence\<close>

text \<open>
  Claim C7. For every database state and every division, running
  \<open>generate_results_for_division\<close> twice in a row gives the database that a single run
  gives: every Result row is the same.
\<close>

theorem generate_results_idempotent:
  "generate_results_for_division ops dv (generate_results_for_division ops dv d)
     = generate_results_for_division ops dv d"
  by (simp add: generate_results_for_division_def division_students_def
      process_student_results_irrelevant fold_process_idem)

subsection \<open>C10: the grace of an entered mark\<close>

text \<open>
  Claim C10. When \<open>enter_marks\<close> succeeds (status 201), the marks are the marks before
  with one row appended, and the grace of that row is 0 whatever grace the request
  supplied; the supplied grace (0 when absent) was within 0 and the ceiling, or the
  request would not have succeeded. A request that does not succeed leaves the database
  as it was. The delete handler, with the recomputation after it, leaves no mark that
  was not there before. So a mark with another grace than 0 comes from the update
  handler, which stores the grace of its request.
\<close>

theorem enter_marks_stores_zero_grace:
  "(enter_marks ops gmax uid data d = (Status 201, d') \<longrightarrow>
      (\<exists>m. marks d' = marks d @ [m] \<and> grace m = Some 0)
      \<and> 0 \<le> get_or_zero (e_grace data) \<and> get_or_zero (e_grace data) \<le> of_int gmax)
   \<and> (enter_marks ops gmax uid data d = (resp, d'') \<and> resp \<noteq> Status 201 \<longrightarrow> d'' = d)
   \<and> set (marks (snd (delete_mark (service ops) mid uid' ut d))) \<subseteq> set (marks d)"
proof (intro conjI impI)
  assume a: "enter_marks ops gmax uid data d = (Status 201, d')"
  have "enter_outcome gmax data d (Status 201, d')"
    using enter_marks_outcome[of gmax data d ops uid] a by simp
  then have r: "0 \<le> get_or_zero (e_grace data)" "get_or_zero (e_grace data) \<le> of_int gmax"
    and m: "d' = d\<lparr>marks := marks d @ [last (marks d')]\<rparr>" "grace (last (marks d')) = Some 0"
    by (simp_all add: enter_outcome_def)
  from m(1) have "marks d' = marks d @ [last (marks d')]"
    by (metis db.select_convs(4) db.surjective db.update_convs(4))
  with m(2) show "\<exists>m. marks d' = marks d @ [m] \<and> grace m = Some 0"
    by blast
  from r show "0 \<le> get_or_zero (e_grace data)" and "get_or_zero (e_grace data) \<le> of_int gmax"
    by simp_all
next
  assume "enter_marks ops gmax uid data d = (resp, d'') \<and> resp \<noteq> Status 201"
  then show "d'' = d"
    using enter_marks_outcome[of gmax data d ops uid] by (simp add: enter_outcome_def)
next
  show "set (marks (snd (delete_mark (service ops) mid uid' ut d))) \<subseteq> set (marks d)"
    by (rule delete_mark_marks)
qed

text \<open>
  Witness for C10: the request with grace 5 succeeds and stores grace 0; with grace 20,
  above the ceiling 15, it is refused with status 400; the update request with grace 5
  stores 5.
\<close>

theorem enter_marks_stores_zero_grace_witness:
  "\<forall>ops.
     enter_marks ops 15 7 entry_request db_entry = (Status 201, db_entry\<lparr>marks := [entered_mark ops]\<rparr>)
   \<and> e_grace entry_request = Some 5
   \<and> enter_marks ops 15 7 (entry_request\<lparr>e_grace := Some 20\<rparr>) db_entry = (Status 400, db_entry)
   \<and> marks db_entry = []
   \<and> map grace (marks (db_entry\<lparr>marks := [entered_mark ops]\<rparr>)) = [Some 0]
   \<and> fst (update_marks ops (service ops) 15 1 7 update_request (db_entry\<lparr>marks := [entered_mark ops]\<rparr>)) = Status 200
   \<and> map grace (marks (snd (update_marks ops (service ops) 15 1 7 update_request (db_entry\<lparr>marks := [entered_mark ops]\<rparr>))))
       = [Some 5]"
proof
  fix ops
  note e = enter_marks_eval[of ops]
  have g: "e_grace entry_request = Some 5"
    by (simp add: entry_request_def)
  have b: "enter_marks ops 15 7 (entry_request\<lparr>e_grace := Some 20\<rparr>) db_entry = (Status 400, db_entry)"
    by (simp add: route_defs db_entry_def entry_request_def sample_defs Let_def)
  have z: "marks db_entry = []"
    by (simp add: db_entry_def)
  have u: "fst (update_marks ops (service ops) 15 1 7 update_request (db_entry\<lparr>marks := [entered_mark ops]\<rparr>)) = Status 200
     \<and> map grace (marks (snd (update_marks ops (service ops) 15 1 7 update_request (db_entry\<lparr>marks := [entered_mark ops]\<rparr>))))
       = [Some 5]"
    by (simp add: route_defs db_entry_def update_request_def entered_mark_def sample_defs
        generate_results_for_division_def Let_def)
  from enter_marks_stores_zero_grace[of ops 15 7 entry_request db_entry "db_entry\<lparr>marks := [entered_mark ops]\<rparr>"]
  show "enter_marks ops 15 7 entry_request db_entry = (Status 201, db_entry\<lparr>marks := [entered_mark ops]\<rparr>)
   \<and> e_grace entry_request = Some 5
   \<and> enter_marks ops 15 7 (entry_request\<lparr>e_grace := Some 20\<rparr>) db_entry = (Status 400, db_entry)
   \<and> marks db_entry = []
   \<and> map grace (marks (db_entry\<lparr>marks := [entered_mark ops]\<rparr>)) = [Some 0]
   \<and> fst (update_marks ops (service ops) 15 1 7 update_request (db_entry\<lparr>marks := [entered_mark ops]\<rparr>)) = Status 200
   \<and> map grace (marks (snd (update_marks ops (service ops) 15 1 7 update_request (db_entry\<lparr>marks := [entered_mark ops]\<rparr>))))
       = [Some 5]"
    using e g b z u by (simp add: entered_mark_def)
qed

subsection \<open>C9: recomputation after a mark is entered\<close>

text \<open>
  Claim C9 at a request that the create handler accepts. In a division whose only
  allocated subject is ENG, teacher 7 enters the ENG marks of a student. The handler
  answers 201 and commits the mark, with total 160 and average 80, and the Result table
  is as before, empty: the handler has not recomputed the results. A run of
  \<open>generate_results_for_division\<close> on the committed database gives the student a row
  with percentage 80.
\<close>

theorem enter_marks_leaves_results_stale:
  "enter_marks double_ops 15 7 entry_request db_entry
     = (Status 201, db_entry\<lparr>marks := [entered_mark double_ops]\<rparr>)
   \<and> tot (entered_mark double_ops) = Some 160
   \<and> sub_avg (entered_mark double_ops) = Some 80
   \<and> results (db_entry\<lparr>marks := [entered_mark double_ops]\<rparr>) = []
   \<and> map percentage
        (results (generate_results_for_division double_ops ''A'' (db_entry\<lparr>marks := [entered_mark double_ops]\<rparr>)))
       = [Some 80]"
proof (intro conjI)
  show "enter_marks double_ops 15 7 entry_request db_entry
     = (Status 201, db_entry\<lparr>marks := [entered_mark double_ops]\<rparr>)"
    by (rule enter_marks_eval)
  have t: "fadd double_ops (fadd double_ops (fadd double_ops 20 20) 40) 80 = 160"
    by code_simp
  have s: "fround2 double_ops (fdiv double_ops 160 2) = 80"
    by code_simp
  show "tot (entered_mark double_ops) = Some 160"
    by (simp add: entered_mark_def t)
  show "sub_avg (entered_mark double_ops) = Some 80"
    by (simp add: entered_mark_def t s)
  show "results (db_entry\<lparr>marks := [entered_mark double_ops]\<rparr>) = []"
    by (simp add: db_entry_def)
  have e: "fround2 double_ops (fdiv double_ops (fadd double_ops 0 80) 1) = 80"
    by code_simp
  show "map percentage
        (results (generate_results_for_division double_ops ''A'' (db_entry\<lparr>marks := [entered_mark double_ops]\<rparr>)))
       = [Some 80]"
    by (simp add: db_entry_def entered_mark_def sample_defs service_defs e)
qed

end
